theory Spec2Isabelle
  imports Complex_Main
begin

section \<open>Values of the host language\<close>

text \<open>
  The bot is one JavaScript module, \<^verbatim>\<open>index.js\<close>. Balances, costs and timestamps are
  JavaScript numbers that only ever hold integers and are modelled as \<^typ>\<open>int\<close>: sums
  and differences of integers below \<open>2^53\<close> are exact in IEEE doubles. The draws of
  \<^verbatim>\<open>Math.random()\<close> are IEEE doubles, modelled below with the rounding of their
  products.

  An exception is a value: a handler returns \<open>Inl e\<close> where the source throws.
\<close>

datatype error = StoreError | TypeError | ValidationError

subsection \<open>Doubles in the unit interval\<close>

text \<open>
  \<^verbatim>\<open>Math.random()\<close> returns a double \<open>d\<close> with \<open>0 \<le> d < 1\<close>. Such a double is a
  fraction \<open>mant / 2^expo\<close> with a mantissa of at most 53 bits and an exponent of at
  most 1074 (the subnormal spacing is \<open>2^-1074\<close>), and every such fraction below 1 is a
  double. A draw is given by the two numbers; the model supplies the draws, the handler
  consumes them.
\<close>

record draw =
  mant :: nat
  expo :: nat

definition dval :: "draw \<Rightarrow> real" where
  "dval d = real (mant d) / 2 ^ expo d"

definition isDraw :: "draw \<Rightarrow> bool" where
  "isDraw d = (mant d < 2 ^ 53 \<and> expo d \<le> 1074 \<and> mant d < 2 ^ expo d)"

text \<open>
  The value of a decimal literal is the double nearest to it: \<^verbatim>\<open>0.10\<close> is
  \<^verbatim>\<open>0x1.999999999999ap-4\<close>, \<^verbatim>\<open>0.75\<close> is exact, \<^verbatim>\<open>0.95\<close> is
  \<^verbatim>\<open>0x1.e666666666666p-1\<close>. Comparing two doubles compares their values.
\<close>

definition literal_0_10 :: real where
  "literal_0_10 = 3602879701896397 / 2 ^ 55"

definition literal_0_75 :: real where
  "literal_0_75 = 3 / 4"

definition literal_0_95 :: real where
  "literal_0_95 = 4278419646001971 / 2 ^ 52"

text \<open>
  \<^verbatim>\<open>Math.random() * n\<close> for a small positive integer \<open>n\<close>. The exact product is
  \<open>M / 2^expo\<close> with \<open>M = mant * n\<close>. A double keeps 53 significant bits: when \<open>M\<close>
  has more, its lowest \<open>s = bitLength M - 53\<close> bits are rounded away, to the nearest
  multiple of \<open>2^s\<close> and to the even one on a tie. (The product of a draw is a normal
  double whenever \<open>s > 0\<close>, and exact otherwise.)
\<close>

fun bitLength :: "nat \<Rightarrow> nat" where
  "bitLength n = (if n = 0 then 0 else Suc (bitLength (n div 2)))"

declare bitLength.simps [simp del]

definition roundHalfEven :: "nat \<Rightarrow> nat \<Rightarrow> nat" where
  "roundHalfEven M s =
    (let q = M div 2 ^ s; r = M mod 2 ^ s
     in if 2 ^ s < 2 * r \<or> (2 * r = 2 ^ s \<and> odd q) then q + 1 else q)"

definition jsTimes :: "draw \<Rightarrow> nat \<Rightarrow> real" where
  "jsTimes d n =
    (let M = mant d * n; s = bitLength M - 53
     in real (roundHalfEven M s * 2 ^ s) / 2 ^ expo d)"

subsection \<open>Strings and arrays\<close>

text \<open>A template literal \<^verbatim>\<open>${n}\<close> prints an integer in decimal.\<close>

definition digit :: "nat \<Rightarrow> char" where
  "digit d = ''0123456789'' ! d"

fun showNat :: "nat \<Rightarrow> string" where
  "showNat n = (if n < 10 then [digit n] else showNat (n div 10) @ [digit (n mod 10)])"

declare showNat.simps [simp del]

definition showInt :: "int \<Rightarrow> string" where
  "showInt i = (if i < 0 then CHR ''-'' # showNat (nat (- i)) else showNat (nat i))"

text \<open>The remainder operator \<^verbatim>\<open>%\<close> truncates: the result has the sign of the dividend.\<close>

definition jsRem :: "int \<Rightarrow> int \<Rightarrow> int" where
  "jsRem a b = sgn a * (\<bar>a\<bar> mod \<bar>b\<bar>)"

text \<open>\<^verbatim>\<open>s || d\<close> on strings: the empty string is falsy.\<close>

definition orElse :: "string \<Rightarrow> string \<Rightarrow> string" where
  "orElse s d = (if s = [] then d else s)"

text \<open>\<^verbatim>\<open>xs[i]\<close> is \<^verbatim>\<open>undefined\<close> out of range.\<close>

definition jsIndex :: "'a list \<Rightarrow> int \<Rightarrow> 'a option" where
  "jsIndex xs i = (if 0 \<le> i \<and> i < int (length xs) then Some (xs ! nat i) else None)"

text \<open>\<^verbatim>\<open>Array.prototype.join\<close>.\<close>

fun join :: "string \<Rightarrow> string list \<Rightarrow> string" where
  "join sep [] = []"
| "join sep [x] = x"
| "join sep (x # y # ys) = x @ sep @ join sep (y # ys)"

text \<open>
  The characters outside ASCII in the string literals of the source file, as the bytes
  the file holds for them (UTF-8). Each constant is named after the pictograph its
  literal stands for.
\<close>

definition skull :: string where
  "skull =
    [CHR 0xEF, CHR 0xA3, CHR 0xBF, CHR 0xC3, CHR 0xBC, CHR 0xC3, CHR 0xAD, CHR 0xC3, CHR 0x84]"

definition hourglass :: string where
  "hourglass =
    [CHR 0xE2, CHR 0x80, CHR 0x9A, CHR 0xC3, CHR 0xA8, CHR 0xE2, CHR 0x89, CHR 0xA5]"

definition pumpkin :: string where
  "pumpkin =
    [CHR 0xEF, CHR 0xA3, CHR 0xBF, CHR 0xC3, CHR 0xBC, CHR 0xC3, CHR 0xA9, CHR 0xC3, CHR 0x89]"

definition ghostGlyph :: string where
  "ghostGlyph =
    [CHR 0xEF, CHR 0xA3, CHR 0xBF, CHR 0xC3, CHR 0xBC, CHR 0xC3, CHR 0xAB, CHR 0xC2, CHR 0xAA]"

definition candyGlyph :: string where
  "candyGlyph =
    [CHR 0xEF, CHR 0xA3, CHR 0xBF, CHR 0xC3, CHR 0xBC, CHR 0xC3, CHR 0xA7, CHR 0xC2, CHR 0xA8]"

definition checkMark :: string where
  "checkMark =
    [CHR 0xE2, CHR 0x80, CHR 0x9A, CHR 0xC3, CHR 0xBA, CHR 0xC3, CHR 0x96]"

definition greenCircle :: string where
  "greenCircle =
    [CHR 0xEF, CHR 0xA3, CHR 0xBF, CHR 0xC3, CHR 0xBC, CHR 0xC3, CHR 0xBC, CHR 0xC2, CHR 0xA2]"

definition redCircle :: string where
  "redCircle =
    [CHR 0xEF, CHR 0xA3, CHR 0xBF, CHR 0xC3, CHR 0xBC, CHR 0xC3, CHR 0xAE, CHR 0xC2, CHR 0xA5]"

definition shoppingBags :: string where
  "shoppingBags =
    [CHR 0xEF, CHR 0xA3, CHR 0xBF, CHR 0xC3, CHR 0xBC, CHR 0xC3, CHR 0xB5, CHR 0xC3,
     CHR 0xA7, CHR 0xC3, CHR 0x94, CHR 0xE2, CHR 0x88, CHR 0x8F, CHR 0xC3, CHR 0xA8]"

definition crown :: string where
  "crown =
    [CHR 0xEF, CHR 0xA3, CHR 0xBF, CHR 0xC3, CHR 0xBC, CHR 0xC3, CHR 0xAB, CHR 0xC3, CHR 0xAB]"

definition newline :: string where
  "newline = [CHR 0x0A]"


section \<open>Data\<close>

definition COOLDOWN_TIME :: int where
  "COOLDOWN_TIME = 2 * 60 * 60 * 1000"

record shop_item =
  item_id :: string
  item_name :: string
  cost :: int
  item_title :: string
  item_color :: string

definition SHOP_ITEMS :: "shop_item list" where
  "SHOP_ITEMS =
    [\<lparr>item_id = ''hat'', item_name = ''Witch'' @ [CHR 0x27] @ ''s Hat'', cost = 50,
       item_title = ''The Bewitched'', item_color = ''#8b008b''\<rparr>,
     \<lparr>item_id = ''mask'', item_name = ''Jason Mask'', cost = 150,
       item_title = ''The Maniac'', item_color = ''#b22222''\<rparr>,
     \<lparr>item_id = ''ghost'', item_name = ''Ghostly Shroud'', cost = 300,
       item_title = ''A Vile Specter'', item_color = ''#cccccc''\<rparr>]"

text \<open>
  A profile document. \<open>username\<close> is absent until the first reward is committed.
\<close>

record profile =
  candy :: int
  title :: string
  inventory :: "string list"
  lastUsed :: int
  username :: "string option"

definition defaultProfile :: profile where
  "defaultProfile =
    \<lparr>candy = 0, title = ''New Trick-or-Treater'', inventory = [], lastUsed = 0,
     username = None\<rparr>"

definition errorProfile :: profile where
  "errorProfile =
    \<lparr>candy = 0, title = ''Error Status'', inventory = [], lastUsed = 0, username = None\<rparr>"

text \<open>
  The document store as the bot sees it. \<open>docs\<close> holds one profile document per user
  id, at the path \<^verbatim>\<open>/artifacts/<appId>/users/<id>/candy_data/profile\<close>. \<open>candy_data\<close>
  holds the documents of the top-level collection \<^verbatim>\<open>candy_data\<close>, the collection that
  \<^verbatim>\<open>collection(db, 'candy_data')\<close> names, in the order the store keeps them; the profile
  documents are not in it, and no line of the source writes to it. \<open>available\<close> says
  whether a request to the store succeeds at this moment.
\<close>

type_synonym uid = string

record world =
  docs :: "uid \<rightharpoonup> profile"
  candy_data :: "profile list"
  available :: bool

record user =
  user_id :: uid
  user_name :: string
  avatarURL :: string

text \<open>\<^verbatim>\<open>getDoc\<close>: the snapshot (\<open>None\<close> when the document does not exist), or a throw.\<close>

definition getDoc :: "world \<Rightarrow> uid \<Rightarrow> error + profile option" where
  "getDoc w u = (if available w then Inr (docs w u) else Inl StoreError)"

definition getUserProfile :: "world \<Rightarrow> uid \<Rightarrow> profile" where
  "getUserProfile w u =
    (case getDoc w u of
       Inr (Some d) \<Rightarrow> d
     | Inr None \<Rightarrow> defaultProfile
     | Inl e \<Rightarrow> errorProfile)"


section \<open>Replies\<close>

record embed =
  embed_color :: string
  embed_title :: string
  embed_description :: "string option"
  embed_thumbnail :: "string option"
  embed_fields :: "(string \<times> string \<times> bool) list"
  embed_footer :: string

datatype reply = Content string | Embeds embed

text \<open>The notice of the dispatcher's \<^verbatim>\<open>catch\<close>.\<close>

definition errorReply :: reply where
  "errorReply =
    Content (skull @ '' A ghostly error occurred while processing your command. Check console logs.'')"


section \<open>The reward action: \<^verbatim>\<open>handleTrickOrTreat\<close>\<close>

subsection \<open>The cooldown reply\<close>

definition remainingHours :: "int \<Rightarrow> int" where
  "remainingHours remainingTime = \<lfloor>real_of_int remainingTime / (1000 * 60 * 60)\<rfloor>"

definition remainingMinutes :: "int \<Rightarrow> int" where
  "remainingMinutes remainingTime =
    \<lceil>real_of_int (jsRem remainingTime (1000 * 60 * 60)) / (1000 * 60)\<rceil>"

definition waitText :: "int \<Rightarrow> string" where
  "waitText remainingTime =
    showInt (remainingHours remainingTime) @ ''h '' @ showInt (remainingMinutes remainingTime) @ ''m''"

definition cooldownReply :: "int \<Rightarrow> reply" where
  "cooldownReply remainingTime =
    Content (hourglass @ '' You must wait **'' @ waitText remainingTime
      @ ''** before trick-or-treating again. The spooks are resting!'')"

subsection \<open>The random outcome\<close>

text \<open>
  The branch the draw takes, named as the comments of the source name it
  (\<^verbatim>\<open>TRICK\<close>, \<^verbatim>\<open>Common\<close>, \<^verbatim>\<open>Rare\<close>, \<^verbatim>\<open>Jackpot\<close>); the source itself keeps
  only the title and colour of the branch.
\<close>

datatype branch = Trick | Common | Rare | Jackpot

record outcome =
  taken :: branch
  candyChange :: int
  out_title :: string
  out_color :: string
  message :: "string option"

definition tricks :: "int \<Rightarrow> string list" where
  "tricks change =
    [''A zombie swapped your bag for one full of leaves! You lost **''
       @ showInt \<bar>change\<bar> @ ''** candy.'',
     ''You stepped on a cursed pumpkin! Your pants are wet, and you dropped **''
       @ showInt \<bar>change\<bar> @ ''** candy.'',
     ''The door was a giant spider web! You were sticky for 5 minutes and lost **''
       @ showInt \<bar>change\<bar> @ ''** candy.'']"

text \<open>
  Lines 212 to 252. Every path makes three draws: \<open>d1\<close> decides trick or treat; in a
  trick \<open>d2\<close> is the magnitude and \<open>d3\<close> the line of text, in a treat \<open>d2\<close> is the tier
  and \<open>d3\<close> the magnitude.
\<close>

definition computeOutcome :: "int \<Rightarrow> draw \<Rightarrow> draw \<Rightarrow> draw \<Rightarrow> outcome" where
  "computeOutcome profileCandy d1 d2 d3 =
    (if dval d1 < literal_0_10 then
       let drawn = - \<lfloor>jsTimes d2 6\<rfloor> - 1;
           change = (if profileCandy + drawn < 0 then - profileCandy else drawn)
       in \<lparr>taken = Trick, candyChange = change, out_title = ''A Nasty Trick!'',
            out_color = ''#b22222'',
            message = jsIndex (tricks change) \<lfloor>jsTimes d3 (length (tricks change))\<rfloor>\<rparr>
     else if dval d2 < literal_0_75 then
       let change = \<lfloor>jsTimes d3 5\<rfloor> + 1
       in \<lparr>taken = Common, candyChange = change, out_title = ''A Sweet Treat!'',
            out_color = ''#ff6700'',
            message = Some (''You got '' @ showInt change @ '' pieces of candy!'')\<rparr>
     else if dval d2 < literal_0_95 then
       let change = \<lfloor>jsTimes d3 10\<rfloor> + 6
       in \<lparr>taken = Rare, candyChange = change, out_title = ''Bonus Haul!'',
            out_color = ''#ffd700'',
            message = Some (''You got '' @ showInt change @ '' pieces of candy!'')\<rparr>
     else
       let change = \<lfloor>jsTimes d3 20\<rfloor> + 16
       in \<lparr>taken = Jackpot, candyChange = change, out_title = ''Jackpot! The Motherlode!'',
            out_color = ''#A020F0'',
            message = Some (''You got '' @ showInt change @ '' pieces of candy!'')\<rparr>)"

subsection \<open>Before the transaction\<close>

text \<open>
  Lines 195 to 252: the profile is read, the cooldown is checked against it, and the
  outcome is drawn against the balance of that read. On a number \<^verbatim>\<open>x || 0\<close> is \<open>x\<close>,
  so \<^verbatim>\<open>profile.lastUsed || 0\<close> is the field itself.
\<close>

datatype prepared = Blocked reply | Ready outcome

definition prepare :: "world \<Rightarrow> user \<Rightarrow> int \<Rightarrow> draw \<Rightarrow> draw \<Rightarrow> draw \<Rightarrow> prepared" where
  "prepare w u now d1 d2 d3 =
    (let profile = getUserProfile w (user_id u);
         lastUsed0 = lastUsed profile
     in if lastUsed0 + COOLDOWN_TIME > now
        then Blocked (cooldownReply (lastUsed0 + COOLDOWN_TIME - now))
        else Ready (computeOutcome (candy profile) d1 d2 d3))"

subsection \<open>The transaction\<close>

text \<open>
  Lines 255 to 265. The transaction reads the document again and writes it back with the
  change added (\<^verbatim>\<open>(currentData.candy || 0) + candyChange\<close>, with no clamp); it throws
  when the store cannot be reached. It returns the new store and the document written,
  which the source assigns to \<^verbatim>\<open>profile\<close>.
\<close>

definition transaction :: "world \<Rightarrow> user \<Rightarrow> int \<Rightarrow> int \<Rightarrow> error + world \<times> profile" where
  "transaction w u now change =
    (case getDoc w (user_id u) of
       Inl e \<Rightarrow> Inl e
     | Inr snap \<Rightarrow>
         let currentData = (case snap of Some d \<Rightarrow> d | None \<Rightarrow> defaultProfile);
             written = currentData\<lparr>candy := candy currentData + change, lastUsed := now,
                         username := Some (user_name u)\<rparr>
         in Inr (w\<lparr>docs := (docs w)(user_id u \<mapsto> written)\<rparr>, written))"

subsection \<open>The reply, and the handler run without interleaving\<close>

text \<open>
  Lines 267 to 277. The builder of the embed validates a description: a string passes
  (its length is not modelled), \<^verbatim>\<open>undefined\<close> throws. After the transaction
  \<^verbatim>\<open>profile\<close> is the document written (line 264), which has no \<^verbatim>\<open>message\<close>
  field, so line 270 passes \<^verbatim>\<open>undefined\<close>: the handler throws after the commit and the
  calls that would add the fields and the footer are not reached.
\<close>

definition setDescription :: "string option \<Rightarrow> embed \<Rightarrow> error + embed" where
  "setDescription text em =
    (case text of
       None \<Rightarrow> Inl ValidationError
     | Some t \<Rightarrow> Inr (em\<lparr>embed_description := Some t\<rparr>))"

definition rewardEmbed :: "outcome \<Rightarrow> profile \<Rightarrow> error + embed" where
  "rewardEmbed out written =
    (case setDescription None
            \<lparr>embed_color = out_color out,
             embed_title = pumpkin @ '' '' @ out_title out,
             embed_description = None,
             embed_thumbnail = None,
             embed_fields = [],
             embed_footer = []\<rparr> of
       Inl e \<Rightarrow> Inl e
     | Inr em \<Rightarrow>
         Inr (em\<lparr>embed_fields :=
                   [(''Change'',
                     (if candyChange out > 0 then ''+'' else []) @ showInt (candyChange out)
                       @ '' Candy'',
                     True),
                    (''Total Candy'', showInt (candy written), True)],
                 embed_footer := ''Next attempt available in 2 hours.''\<rparr>))"

definition finish :: "world \<Rightarrow> user \<Rightarrow> int \<Rightarrow> outcome \<Rightarrow> world \<times> (error + reply)" where
  "finish w u now out =
    (case transaction w u now (candyChange out) of
       Inl e \<Rightarrow> (w, Inl e)
     | Inr (w', written) \<Rightarrow>
         (case rewardEmbed out written of
            Inl e \<Rightarrow> (w', Inl e)
          | Inr em \<Rightarrow> (w', Inr (Embeds em))))"

definition handleTrickOrTreat ::
  "world \<Rightarrow> user \<Rightarrow> int \<Rightarrow> draw \<Rightarrow> draw \<Rightarrow> draw \<Rightarrow> world \<times> (error + reply)" where
  "handleTrickOrTreat w u now d1 d2 d3 =
    (case prepare w u now d1 d2 d3 of
       Blocked r \<Rightarrow> (w, Inr r)
     | Ready out \<Rightarrow> finish w u now out)"

subsection \<open>Two reward actions of one user, interleaved\<close>

text \<open>
  Every read of the store suspends the handler, so a second \<^verbatim>\<open>/trickortreat\<close> of the
  same user can run its lines 195 to 252 before the first one reaches its transaction.
  \<open>raceTwo\<close> is that schedule: both handlers read and draw against the same store, then
  the transactions commit one after the other. The result is the store after both.
\<close>

definition raceTwo ::
  "world \<Rightarrow> user \<Rightarrow> int \<Rightarrow> draw \<times> draw \<times> draw \<Rightarrow> int \<Rightarrow> draw \<times> draw \<times> draw \<Rightarrow> world" where
  "raceTwo w u nowA drawsA nowB drawsB =
    (case (drawsA, drawsB) of
       ((a1, a2, a3), (b1, b2, b3)) \<Rightarrow>
         (case (prepare w u nowA a1 a2 a3, prepare w u nowB b1 b2 b3) of
            (Ready outA, Ready outB) \<Rightarrow> fst (finish (fst (finish w u nowA outA)) u nowB outB)
          | (Ready outA, Blocked rB) \<Rightarrow> fst (finish w u nowA outA)
          | (Blocked rA, Ready outB) \<Rightarrow> fst (finish w u nowB outB)
          | (Blocked rA, Blocked rB) \<Rightarrow> w))"


section \<open>The read-only commands\<close>

subsection \<open>\<^verbatim>\<open>handleInventory\<close>\<close>

text \<open>
  \<^verbatim>\<open>SHOP_ITEMS.find(i => i.id === id).name\<close>: \<^verbatim>\<open>find\<close> gives \<^verbatim>\<open>undefined\<close> for an
  id that is not in the catalog, and reading \<^verbatim>\<open>.name\<close> of it throws a TypeError.
\<close>

definition itemName :: "string \<Rightarrow> error + string" where
  "itemName ident =
    (case find (\<lambda>i. item_id i = ident) SHOP_ITEMS of
       None \<Rightarrow> Inl TypeError
     | Some i \<Rightarrow> Inr (item_name i))"

text \<open>The \<^verbatim>\<open>map\<close> over the inventory stops at the first throw.\<close>

fun itemNames :: "string list \<Rightarrow> error + string list" where
  "itemNames [] = Inr []"
| "itemNames (ident # rest) =
    (case itemName ident of
       Inl e \<Rightarrow> Inl e
     | Inr n \<Rightarrow> (case itemNames rest of Inl e \<Rightarrow> Inl e | Inr ns \<Rightarrow> Inr (n # ns)))"

definition itemsOwned :: "profile \<Rightarrow> error + string" where
  "itemsOwned p =
    (if length (inventory p) > 0
     then (case itemNames (inventory p) of Inl e \<Rightarrow> Inl e | Inr ns \<Rightarrow> Inr (join '', '' ns))
     else Inr ''None'')"

definition inventoryEmbed :: "user \<Rightarrow> profile \<Rightarrow> string \<Rightarrow> embed" where
  "inventoryEmbed u p owned =
    (let userTitle = orElse (title p) ''New Trick-or-Treater''
     in \<lparr>embed_color = ''#A020F0'',
          embed_title = ghostGlyph @ '' '' @ user_name u @ [CHR 0x27] @ ''s Inventory'',
          embed_description = Some (''**Current Title:** `'' @ userTitle @ ''`''),
          embed_thumbnail = Some (avatarURL u),
          embed_fields =
            [(''Candy Count'', showInt (candy p) @ '' '' @ candyGlyph, True),
             (''Items Owned'', owned, False)],
          embed_footer = ''Spend your candy in the /shop!''\<rparr>)"

definition handleInventory :: "world \<Rightarrow> user \<Rightarrow> world \<times> (error + reply)" where
  "handleInventory w u =
    (let p = getUserProfile w (user_id u)
     in case itemsOwned p of
          Inl e \<Rightarrow> (w, Inl e)
        | Inr owned \<Rightarrow> (w, Inr (Embeds (inventoryEmbed u p owned))))"

subsection \<open>\<^verbatim>\<open>handleShop\<close>\<close>

definition shopStatus :: "profile \<Rightarrow> shop_item \<Rightarrow> string" where
  "shopStatus p item =
    (let owned = item_id item \<in> set (inventory p)
     in if owned then checkMark @ '' OWNED''
        else if candy p \<ge> cost item then greenCircle @ '' BUYABLE''
        else redCircle @ '' TOO POOR'')"

definition shopEntry :: "profile \<Rightarrow> shop_item \<Rightarrow> string" where
  "shopEntry p item =
    ''**'' @ item_name item @ ''**'' @ newline
    @ ''**Cost:** '' @ showInt (cost item) @ '' '' @ candyGlyph @ newline
    @ ''**Title:** `'' @ item_title item @ ''`'' @ newline
    @ ''**Status:** '' @ shopStatus p item @ newline @ newline"

definition shopDescription :: "profile \<Rightarrow> string" where
  "shopDescription p =
    foldl (\<lambda>text item. text @ shopEntry p item)
      (''You have **'' @ showInt (candy p) @ '' '' @ candyGlyph @ ''** to spend.''
         @ newline @ newline)
      SHOP_ITEMS"

definition handleShop :: "world \<Rightarrow> user \<Rightarrow> world \<times> (error + reply)" where
  "handleShop w u =
    (let p = getUserProfile w (user_id u)
     in (w, Inr (Embeds
          \<lparr>embed_color = ''#8b008b'',
           embed_title = shoppingBags @ '' Spooky Title Shop'',
           embed_description = Some (shopDescription p),
           embed_thumbnail = None,
           embed_fields = [],
           embed_footer = ''To purchase, use /shop <item ID> (e.g., /shop hat)''\<rparr>)))"

subsection \<open>\<^verbatim>\<open>handleTopSpook\<close>\<close>

text \<open>
  Lines 378 to 387:
  \<^verbatim>\<open>getDocs(query(collection(db, 'candy_data'), orderBy('candy', 'desc'), limit(10)))\<close>.
  The collection is the top-level collection \<^verbatim>\<open>candy_data\<close> (the source imports no
  \<^verbatim>\<open>collectionGroup\<close>). The store answers with its documents sorted by \<^verbatim>\<open>candy\<close>
  descending, documents of equal \<^verbatim>\<open>candy\<close> in the order the store keeps them, cut after
  the first 10; the call throws when the store cannot be reached.
\<close>

definition orderByCandyDesc :: "profile list \<Rightarrow> profile list" where
  "orderByCandyDesc ds = sort_key (\<lambda>d. - candy d) ds"

definition getDocs :: "world \<Rightarrow> error + profile list" where
  "getDocs w =
    (if available w then Inr (take 10 (orderByCandyDesc (candy_data w))) else Inl StoreError)"

definition leaderboardLine :: "int \<Rightarrow> profile \<Rightarrow> string" where
  "leaderboardLine rank d =
    ''**#'' @ showInt rank @ ''** ''
    @ (case username d of None \<Rightarrow> ''Mysterious User'' | Some n \<Rightarrow> orElse n ''Mysterious User'')
    @ '' (`'' @ orElse (title d) ''Novice'' @ ''`): **'' @ showInt (candy d) @ ''** ''
    @ candyGlyph"

text \<open>The callback of \<^verbatim>\<open>snapshot.docs.map\<close> numbers the lines with \<^verbatim>\<open>rank++\<close>.\<close>

fun leaderboardLines :: "int \<Rightarrow> profile list \<Rightarrow> string list" where
  "leaderboardLines rank [] = []"
| "leaderboardLines rank (d # ds) = leaderboardLine rank d # leaderboardLines (rank + 1) ds"

definition emptyText :: string where
  "emptyText = ''The spooky competition is empty! Be the first to use /trickortreat!''"

definition unavailableText :: string where
  "unavailableText =
    ''A Collection Group Index is likely missing in Firestore. You must create one for **`candy_data`** to see the leaderboard. Until then, go trick-or-treating!''"

definition leaderboardText :: "error + profile list \<Rightarrow> string" where
  "leaderboardText snapshot =
    (case snapshot of
       Inl e \<Rightarrow> unavailableText
     | Inr ds \<Rightarrow> if ds = [] then emptyText else join newline (leaderboardLines 1 ds))"

definition handleTopSpook :: "world \<Rightarrow> world \<times> (error + reply)" where
  "handleTopSpook w =
    (w, Inr (Embeds
       \<lparr>embed_color = ''#000000'',
        embed_title = crown @ '' Global Spooky Leaderboard '' @ crown,
        embed_description = Some (leaderboardText (getDocs w)),
        embed_thumbnail = None,
        embed_fields = [],
        embed_footer = ''The top 10 richest trick-or-treaters across all servers.''\<rparr>))"


section \<open>The dispatcher\<close>

text \<open>
  The listener of \<^verbatim>\<open>interactionCreate\<close>: the handler of the command runs inside a
  \<^verbatim>\<open>try\<close>, and a throw becomes the error notice. A command name outside the four gets
  no reply. The time and the three draws are the inputs a handler may ask for.
\<close>

definition interactionCreate ::
  "world \<Rightarrow> string \<Rightarrow> user \<Rightarrow> int \<Rightarrow> draw \<Rightarrow> draw \<Rightarrow> draw \<Rightarrow> world \<times> reply option" where
  "interactionCreate w commandName u now d1 d2 d3 =
    (let caught = (\<lambda>(w', r). (w', Some (case r of Inl e \<Rightarrow> errorReply | Inr x \<Rightarrow> x)))
     in if commandName = ''trickortreat'' then caught (handleTrickOrTreat w u now d1 d2 d3)
        else if commandName = ''inventory'' then caught (handleInventory w u)
        else if commandName = ''shop'' then caught (handleShop w u)
        else if commandName = ''topspook'' then caught (handleTopSpook w)
        else (w, None))"


section \<open>Example inputs\<close>

text \<open>
  Draws, named by the decimal that JavaScript prints for them: \<open>0\<close>, \<open>0.5\<close>,
  \<open>0.05\<close>, \<open>0.9\<close>, \<open>0.7\<close>, \<open>0.8333333333333333\<close>, \<open>0.3333333333333333\<close>,
  \<open>0.75\<close> and \<open>0.95\<close>.
\<close>

definition draw_0 :: draw where
  "draw_0 = \<lparr>mant = 0, expo = 0\<rparr>"

definition draw_0_5 :: draw where
  "draw_0_5 = \<lparr>mant = 1, expo = 1\<rparr>"

definition draw_0_05 :: draw where
  "draw_0_05 = \<lparr>mant = 3602879701896397, expo = 56\<rparr>"

definition draw_0_9 :: draw where
  "draw_0_9 = \<lparr>mant = 8106479329266893, expo = 53\<rparr>"

definition draw_0_7 :: draw where
  "draw_0_7 = \<lparr>mant = 3152519739159347, expo = 52\<rparr>"

definition draw_0_8333 :: draw where
  "draw_0_8333 = \<lparr>mant = 3752999689475413, expo = 52\<rparr>"

definition draw_0_3333 :: draw where
  "draw_0_3333 = \<lparr>mant = 6004799503160661, expo = 54\<rparr>"

definition draw_0_75 :: draw where
  "draw_0_75 = \<lparr>mant = 3, expo = 2\<rparr>"

definition draw_0_95 :: draw where
  "draw_0_95 = \<lparr>mant = 4278419646001971, expo = 52\<rparr>"

definition exampleUser :: user where
  "exampleUser =
    \<lparr>user_id = ''u1'', user_name = ''kat'', avatarURL = ''https://cdn.example/kat.png''\<rparr>"

definition exampleProfile :: profile where
  "exampleProfile =
    \<lparr>candy = 3, title = ''New Trick-or-Treater'', inventory = [], lastUsed = 1000000,
     username = Some ''kat''\<rparr>"

definition exampleWorld :: world where
  "exampleWorld =
    \<lparr>docs = Map.empty(''u1'' \<mapsto> exampleProfile), candy_data = [], available = True\<rparr>"

definition brokenProfile :: profile where
  "brokenProfile =
    \<lparr>candy = 60, title = ''The Bewitched'', inventory = [''hat'', ''broom''], lastUsed = 1000000,
     username = Some ''kat''\<rparr>"

definition brokenWorld :: world where
  "brokenWorld =
    \<lparr>docs = Map.empty(''u1'' \<mapsto> brokenProfile), candy_data = [], available = True\<rparr>"

definition exampleSnapshot :: "profile list" where
  "exampleSnapshot =
    [\<lparr>candy = 30, title = ''New Trick-or-Treater'', inventory = [], lastUsed = 5, username = Some ''A''\<rparr>,
     \<lparr>candy = 30, title = [], inventory = [], lastUsed = 7, username = None\<rparr>,
     \<lparr>candy = 10, title = ''New Trick-or-Treater'', inventory = [], lastUsed = 9, username = Some ''B''\<rparr>]"

definition downWorld :: world where
  "downWorld = exampleWorld\<lparr>available := False\<rparr>"

definition freshWorld :: world where
  "freshWorld = \<lparr>docs = Map.empty, candy_data = [], available = True\<rparr>"


section \<open>Auxiliary facts\<close>

lemma COOLDOWN_TIME_ms: "COOLDOWN_TIME = 7200000"
  by (simp add: COOLDOWN_TIME_def)

lemma exampleWorld_profile: "getUserProfile exampleWorld (user_id exampleUser) = exampleProfile"
  by (simp add: getUserProfile_def getDoc_def exampleWorld_def exampleUser_def)

lemma remainingHours_div: "remainingHours r = r div 3600000"
  unfolding remainingHours_def
  using floor_divide_of_int_eq[of r 3600000, where ?'a = real] by simp

lemma jsRem_nonneg: "0 \<le> a \<Longrightarrow> 0 < b \<Longrightarrow> jsRem a b = a mod b"
  by (cases "a = 0") (simp_all add: jsRem_def)

lemma ceiling_div: "\<lceil>real_of_int a / real_of_int b\<rceil> = - ((- a) div b)"
  by (metis ceiling_def floor_divide_of_int_eq minus_divide_left of_int_minus)

lemma remainingMinutes_div: "0 \<le> r \<Longrightarrow> remainingMinutes r = - ((- (r mod 3600000)) div 60000)"
  unfolding remainingMinutes_def
  using ceiling_div[of "r mod 3600000" 60000] by (simp add: jsRem_nonneg)

lemma div_bounds:
  fixes H r :: int
  assumes "0 < H"
  shows "H * (r div H) \<le> r \<and> r < H * (r div H + 1) \<and> r mod H = r - H * (r div H)"
proof -
  have e: "H * (r div H) + r mod H = r" by simp
  have d: "H * (r div H + 1) = H * (r div H) + H" by (simp add: algebra_simps)
  have "0 \<le> r mod H" and "r mod H < H" using assms by simp_all
  with e show ?thesis unfolding d by linarith
qed

lemma ceil_bounds:
  fixes M x :: int
  assumes "0 < M"
  shows "M * (- ((- x) div M) - 1) < x \<and> x \<le> M * (- ((- x) div M))"
  using div_bounds [OF assms, of "- x"] by (simp add: algebra_simps)

lemma tricks_length: "length (tricks x) = 3"
  by (simp add: tricks_def)

lemma tricks_report:
  "line \<in> set (tricks x) \<Longrightarrow> \<exists>pre. line = pre @ ''**'' @ showInt \<bar>x\<bar> @ ''** candy.''"
  unfolding tricks_def by auto

subsection \<open>The product of a draw and a small integer\<close>

lemma bitLength_bounds: "0 < n \<Longrightarrow> 2 ^ (bitLength n - 1) \<le> n \<and> n < 2 ^ bitLength n"
proof (induction n rule: bitLength.induct)
  case (1 n)
  show ?case
  proof (cases "n div 2 = 0")
    case True
    with "1.prems" have "n = 1" by (simp add: div_eq_0_iff) 
    then show ?thesis by (simp add: bitLength.simps)
  next
    case False
    then have pos: "0 < n div 2" by simp
    from "1.prems" have n0: "n \<noteq> 0" by simp
    from "1.IH"[OF n0 pos] have lo: "2 ^ (bitLength (n div 2) - 1) \<le> n div 2"
      and hi: "n div 2 < 2 ^ bitLength (n div 2)" by simp_all
    have bl: "bitLength n = Suc (bitLength (n div 2))" using n0 by (subst bitLength.simps) simp
    have blpos: "0 < bitLength (n div 2)" using pos by (subst bitLength.simps) simp
    have "2 * 2 ^ (bitLength (n div 2) - 1) \<le> 2 * (n div 2)" using lo by simp
    moreover have "2 * 2 ^ (bitLength (n div 2) - 1) = (2::nat) ^ bitLength (n div 2)"
      using blpos by (cases "bitLength (n div 2)") simp_all
    moreover have "2 * (n div 2) \<le> n" by simp
    ultimately have a: "2 ^ (bitLength n - 1) \<le> n" by (simp add: bl)
    have "n < 2 * (n div 2) + 2" by presburger
    moreover have "2 * (n div 2) + 2 \<le> 2 * 2 ^ bitLength (n div 2)" using hi by simp
    ultimately have b: "n < 2 ^ bitLength n" by (simp add: bl)
    from a b show ?thesis by simp
  qed
qed

lemma roundHalfEven_zero: "roundHalfEven M 0 = M"
  by (simp add: roundHalfEven_def)

lemma roundHalfEven_bounds:
  "2 * (roundHalfEven M s * 2 ^ s) \<le> 2 * M + 2 ^ s
   \<and> 2 * M \<le> 2 * (roundHalfEven M s * 2 ^ s) + 2 ^ s
   \<and> (M div 2 ^ s) * 2 ^ s \<le> roundHalfEven M s * 2 ^ s"
proof -
  define q where "q = M div 2 ^ s"
  define r where "r = M mod 2 ^ s"
  define p where "p = (2::nat) ^ s"
  have M: "M = q * p + r" unfolding q_def r_def p_def by (rule div_mult_mod_eq [symmetric])
  have r: "r < p" unfolding r_def p_def by simp
  show ?thesis
  proof (cases "p < 2 * r \<or> (2 * r = p \<and> odd q)")
    case True
    then have R: "roundHalfEven M s = q + 1"
      unfolding roundHalfEven_def Let_def q_def r_def p_def by simp
    have "(q + 1) * p = q * p + p" by (simp add: algebra_simps)
    with True M r show ?thesis unfolding R q_def[symmetric] p_def[symmetric] by auto
  next
    case False
    then have R: "roundHalfEven M s = q"
      unfolding roundHalfEven_def Let_def q_def r_def p_def by simp
    from False have "2 * r \<le> p" by auto
    with M r show ?thesis unfolding R q_def[symmetric] p_def[symmetric] by auto
  qed
qed

lemma jsTimes_product:
  assumes d: "isDraw d" and n0: "0 < n" and n32: "n \<le> 32"
  defines "M \<equiv> mant d * n"
  defines "P \<equiv> roundHalfEven M (bitLength M - 53) * 2 ^ (bitLength M - 53)"
  shows "P < n * 2 ^ expo d"
    and "\<And>K. K * 2 ^ expo d \<le> M \<Longrightarrow> K * 2 ^ expo d \<le> P"
    and "P * 2 ^ 49 \<le> M * 2 ^ 49 + 2 ^ expo d"
proof -
  define s where "s = bitLength M - 53"
  define e where "e = expo d"
  define m where "m = mant d"
  have m53: "m < 2 ^ 53" and me: "m < 2 ^ e"
    using d unfolding isDraw_def m_def e_def by simp_all
  have Mm: "M = m * n" unfolding M_def m_def by simp
  have P: "P = roundHalfEven M s * 2 ^ s" unfolding P_def s_def by simp
  have Mlt: "M < n * 2 ^ e"
    unfolding Mm using me n0 by (simp add: mult.commute)
  have Mle: "M + n \<le> n * 2 ^ e"
  proof -
    from me have "m + 1 \<le> 2 ^ e" by simp
    then have "(m + 1) * n \<le> 2 ^ e * n" by (rule mult_le_mono1)
    then show ?thesis unfolding Mm by (simp add: algebra_simps)
  qed
  note rb = roundHalfEven_bounds[of M s, folded P]
  have goal: "P < n * 2 ^ e \<and> (\<forall>K. K * 2 ^ e \<le> M \<longrightarrow> K * 2 ^ e \<le> P)
      \<and> P * 2 ^ 49 \<le> M * 2 ^ 49 + 2 ^ e"
  proof (cases "s = 0")
    case True
    then have "P = M" unfolding P by (simp add: roundHalfEven_zero)
    with Mlt show ?thesis by simp
  next
    case False
    then have spos: "0 < s" by simp
    then have L: "bitLength M = s + 53" unfolding s_def by simp
    then have Mpos: "0 < M" by (cases "M = 0") (simp_all add: bitLength.simps)
    from bitLength_bounds[OF Mpos] have lo: "2 ^ (s + 52) \<le> M"
      unfolding L by (simp add: add.commute)
    have "M < 2 ^ 53 * n" unfolding Mm using m53 n0 by simp
    with lo have "(2::nat) ^ (s + 52) < 2 ^ 53 * n" by simp
    then have "(2::nat) ^ s * 2 ^ 52 < (2 * n) * 2 ^ 52" by (simp add: power_add)
    then have s2n: "(2::nat) ^ s < 2 * n" by simp
    from lo Mlt have "(2::nat) ^ (s + 52) < n * 2 ^ e" by simp
    also have "n * 2 ^ e \<le> 32 * 2 ^ e" using n32 by simp
    also have "(32::nat) * 2 ^ e = 2 ^ (e + 5)" by (simp add: power_add)
    finally have "s + 52 < e + 5" by (simp only: power_strict_increasing_iff[of "2::nat"] rel_simps)
    then have es: "s + 48 \<le> e" by simp
    have a: "P < n * 2 ^ e"
    proof -
      from rb have "2 * P \<le> 2 * M + 2 ^ s" by simp
      also have "\<dots> < 2 * M + 2 * n" using s2n by simp
      also have "\<dots> \<le> 2 * (n * 2 ^ e)" using Mle by simp
      finally show ?thesis by simp
    qed
    have b: "\<forall>K. K * 2 ^ e \<le> M \<longrightarrow> K * 2 ^ e \<le> P"
    proof (intro allI impI)
      fix K :: nat assume K: "K * 2 ^ e \<le> M"
      from es have "e = (e - s) + s" by simp
      then have pe: "(2::nat) ^ e = 2 ^ (e - s) * 2 ^ s" by (metis power_add)
      from K have "(K * 2 ^ (e - s)) * 2 ^ s \<le> M" unfolding pe by (simp add: mult.assoc)
      then have "K * 2 ^ (e - s) \<le> M div 2 ^ s"
        by (simp add: less_eq_div_iff_mult_less_eq)
      then have "(K * 2 ^ (e - s)) * 2 ^ s \<le> (M div 2 ^ s) * 2 ^ s" by (rule mult_le_mono1)
      also from rb have "\<dots> \<le> P" by simp
      finally show "K * 2 ^ e \<le> P" unfolding pe by (simp add: mult.assoc)
    qed
    have c: "P * 2 ^ 49 \<le> M * 2 ^ 49 + 2 ^ e"
    proof -
      from rb have "2 * P \<le> 2 * M + 2 ^ s" by simp
      then have "(2 * P) * 2 ^ 48 \<le> (2 * M + 2 ^ s) * 2 ^ 48" by (rule mult_le_mono1)
      then have "P * 2 ^ 49 \<le> M * 2 ^ 49 + 2 ^ (s + 48)"
        by (simp add: algebra_simps power_add)
      also have "(2::nat) ^ (s + 48) \<le> 2 ^ e" using es by (simp only: power_increasing_iff rel_simps)
      finally show ?thesis by simp
    qed
    from a b c show ?thesis by blast
  qed
  from goal show "P < n * 2 ^ expo d" unfolding e_def by blast
  from goal show "\<And>K. K * 2 ^ expo d \<le> M \<Longrightarrow> K * 2 ^ expo d \<le> P" unfolding e_def by blast
  from goal show "P * 2 ^ 49 \<le> M * 2 ^ 49 + 2 ^ expo d" unfolding e_def by blast
qed

lemma dval_range: "isDraw d \<Longrightarrow> 0 \<le> dval d \<and> dval d < 1"
proof -
  assume "isDraw d"
  then have "mant d < 2 ^ expo d" unfolding isDraw_def by blast
  then have "real (mant d) < real (2 ^ expo d)" by (rule of_nat_less_iff[THEN iffD2])
  then have lt: "real (mant d) < 2 ^ expo d" by simp
  have "0 \<le> real (mant d) / 2 ^ expo d" by simp
  moreover from lt have "real (mant d) / 2 ^ expo d < 1" by (simp add: divide_less_eq)
  ultimately show ?thesis unfolding dval_def by blast
qed

lemma floor_real_div_pow: "\<lfloor>real a / 2 ^ b\<rfloor> = int (a div 2 ^ b)"
proof -
  have "\<lfloor>real a / real (2 ^ b)\<rfloor> = int (a div 2 ^ b)" by (rule floor_divide_of_nat_eq)
  then show ?thesis by simp
qed

lemma floor_jsTimes_nat:
  "\<lfloor>jsTimes d n\<rfloor>
     = int ((roundHalfEven (mant d * n) (bitLength (mant d * n) - 53)
              * 2 ^ (bitLength (mant d * n) - 53)) div 2 ^ expo d)"
  unfolding jsTimes_def Let_def by (rule floor_real_div_pow)

lemma floor_jsTimes:
  assumes d: "isDraw d" and n0: "0 < n" and n32: "n \<le> 32"
  shows "0 \<le> \<lfloor>jsTimes d n\<rfloor> \<and> \<lfloor>jsTimes d n\<rfloor> < int n
    \<and> \<lfloor>dval d * real n\<rfloor> \<le> \<lfloor>jsTimes d n\<rfloor>
    \<and> \<lfloor>jsTimes d n\<rfloor> \<le> \<lfloor>dval d * real n + 1 / 2 ^ 49\<rfloor>"
proof -
  define M where "M = mant d * n"
  define P where "P = roundHalfEven M (bitLength M - 53) * 2 ^ (bitLength M - 53)"
  define e where "e = expo d"
  note f = jsTimes_product[OF d n0 n32, folded M_def, folded P_def, folded e_def]
  have fl: "\<lfloor>jsTimes d n\<rfloor> = int (P div 2 ^ e)"
    unfolding P_def M_def e_def by (rule floor_jsTimes_nat)
  have js: "jsTimes d n = real P / 2 ^ e"
    unfolding jsTimes_def Let_def P_def M_def e_def by simp
  have ex: "dval d * real n = real M / 2 ^ e"
    unfolding dval_def M_def e_def by simp
  have a: "0 \<le> \<lfloor>jsTimes d n\<rfloor>" unfolding fl by simp
  have "P div 2 ^ e < n" using f(1) by (simp add: less_mult_imp_div_less)
  then have b: "\<lfloor>jsTimes d n\<rfloor> < int n" unfolding fl by simp
  have c: "\<lfloor>dval d * real n\<rfloor> \<le> \<lfloor>jsTimes d n\<rfloor>"
  proof -
    have k: "\<lfloor>dval d * real n\<rfloor> = int (M div 2 ^ e)"
      unfolding ex by (rule floor_real_div_pow)
    have "(M div 2 ^ e) * 2 ^ e \<le> M" by simp
    then have "(M div 2 ^ e) * 2 ^ e \<le> P" by (rule f(2))
    then have "M div 2 ^ e \<le> P div 2 ^ e" by (simp add: less_eq_div_iff_mult_less_eq)
    then show ?thesis unfolding k fl by simp
  qed
  have g: "\<lfloor>jsTimes d n\<rfloor> \<le> \<lfloor>dval d * real n + 1 / 2 ^ 49\<rfloor>"
  proof -
    from f(3) have "real (P * 2 ^ 49) \<le> real (M * 2 ^ 49 + 2 ^ e)" by (rule of_nat_mono)
    then have "real P * 2 ^ 49 \<le> real M * 2 ^ 49 + 2 ^ e" by simp
    then have "real P * 2 ^ 49 / (2 ^ 49 * 2 ^ e) \<le> (real M * 2 ^ 49 + 2 ^ e) / (2 ^ 49 * 2 ^ e)"
      by (rule divide_right_mono) simp
    then have "real P / 2 ^ e \<le> real M / 2 ^ e + 1 / 2 ^ 49"
      by (simp add: add_divide_distrib)
    then show ?thesis unfolding js ex by (rule floor_mono)
  qed
  from a b c g show ?thesis by blast
qed

lemmas jsTimes_eval = floor_jsTimes_nat bitLength.simps roundHalfEven_def Let_def

subsection \<open>The decimal literals as cuts of the draws\<close>

lemma frac_less_nat:
  fixes m e a b :: nat
  shows "(real m / 2 ^ e < real a / 2 ^ b) = (m * 2 ^ b < a * 2 ^ e)"
proof -
  have "(real m / 2 ^ e < real a / 2 ^ b) = (real m * 2 ^ b < real a * 2 ^ e)"
    by (simp add: field_simps)
  also have "\<dots> = (real (m * 2 ^ b) < real (a * 2 ^ e))" by simp
  also have "\<dots> = (m * 2 ^ b < a * 2 ^ e)" by (rule of_nat_less_iff)
  finally show ?thesis .
qed

lemma frac_less_ratio:
  fixes m e p q :: nat
  assumes "0 < q"
  shows "(real m / 2 ^ e < real p / real q) = (m * q < p * 2 ^ e)"
proof -
  have "(real m / 2 ^ e < real p / real q) = (real m * real q < real p * 2 ^ e)"
    using assms by (simp add: field_simps)
  also have "\<dots> = (real (m * q) < real (p * 2 ^ e))" by simp
  also have "\<dots> = (m * q < p * 2 ^ e)" by (rule of_nat_less_iff)
  finally show ?thesis .
qed

lemma literal_0_10_cut:
  assumes d: "isDraw d"
  shows "(dval d < literal_0_10) = (dval d < 1 / 10)"
proof -
  define m where "m = mant d"
  define e where "e = expo d"
  have m53: "m < 2 ^ 53" using d unfolding isDraw_def m_def by simp
  have lit: "(dval d < literal_0_10) = (m * 2 ^ 55 < 3602879701896397 * 2 ^ e)"
    unfolding dval_def literal_0_10_def m_def[symmetric] e_def[symmetric]
    using frac_less_nat[of m e 3602879701896397 55] by simp
  have ten: "(dval d < 1 / 10) = (m * 10 < 2 ^ e)"
    unfolding dval_def m_def[symmetric] e_def[symmetric]
    using frac_less_ratio[of 10 m e 1] by simp
  show ?thesis
  proof
    assume "dval d < 1 / 10"
    then have "m * 10 < 2 ^ e" by (simp only: ten)
    then have "m * 10 * 3602879701896397 < 2 ^ e * 3602879701896397" by simp
    moreover have "m * 2 ^ 55 \<le> m * 10 * 3602879701896397" by simp
    ultimately have "m * 2 ^ 55 < 3602879701896397 * 2 ^ e" by (simp add: mult.commute)
    then show "dval d < literal_0_10" by (simp only: lit)
  next
    assume "dval d < literal_0_10"
    then have h1: "m * 2 ^ 55 < 3602879701896397 * 2 ^ e" by (simp only: lit)
    show "dval d < 1 / 10"
    proof (rule ccontr)
      assume "\<not> dval d < 1 / 10"
      then have h2: "2 ^ e \<le> m * 10" by (simp only: ten not_less)
      have "(2::nat) ^ e < 2 ^ 57"
      proof -
        have "m * 10 < 2 ^ 53 * 10" using m53 by simp
        with h2 have "(2::nat) ^ e < 2 ^ 53 * 10" by simp
        also have "\<dots> < (2::nat) ^ 57" by simp
        finally show ?thesis .
      qed
      then have "e < 57" by (simp only: power_strict_increasing_iff rel_simps)
      then have "e + (56 - e) = 56" by simp
      then have p: "(2::nat) ^ 56 = 2 ^ e * 2 ^ (56 - e)" by (metis power_add)
      define k where "k = m * 2 ^ (56 - e)"
      from h1 have "(m * 2 ^ 55) * 2 ^ (56 - e) < (3602879701896397 * 2 ^ e) * 2 ^ (56 - e)"
        by simp
      then have "k * 2 ^ 55 < 3602879701896397 * 2 ^ 56"
        unfolding k_def p by (simp add: mult_ac)
      then have k1: "k < 7205759403792794" by simp
      from h2 have "2 ^ e * 2 ^ (56 - e) \<le> (m * 10) * 2 ^ (56 - e)" by simp
      then have k2: "2 ^ 56 \<le> k * 10" unfolding k_def p by (simp add: mult_ac)
      from k1 have "k * 10 \<le> 72057594037927930" by simp
      with k2 show False by simp
    qed
  qed
qed

lemma literal_0_95_cut:
  assumes d: "isDraw d"
  shows "(dval d < literal_0_95) = (dval d < 95 / 100 \<and> dval d \<noteq> literal_0_95)"
proof -
  define m where "m = mant d"
  define e where "e = expo d"
  have m53: "m < 2 ^ 53" using d unfolding isDraw_def m_def by simp
  have lit: "(dval d < literal_0_95) = (m * 2 ^ 52 < 4278419646001971 * 2 ^ e)"
    unfolding dval_def literal_0_95_def m_def[symmetric] e_def[symmetric]
    using frac_less_nat[of m e 4278419646001971 52] by simp
  have gt: "(literal_0_95 < dval d) = (4278419646001971 * 2 ^ e < m * 2 ^ 52)"
    unfolding dval_def literal_0_95_def m_def[symmetric] e_def[symmetric]
    using frac_less_nat[of 4278419646001971 52 m e] by simp
  have real95: "(dval d < 95 / 100) = (m * 100 < 95 * 2 ^ e)"
    unfolding dval_def m_def[symmetric] e_def[symmetric]
    using frac_less_ratio[of 100 m e 95] by simp
  show ?thesis
  proof
    assume a: "dval d < literal_0_95"
    then have "m * 2 ^ 52 < 4278419646001971 * 2 ^ e" by (simp only: lit)
    then have "(m * 2 ^ 52) * 100 < (4278419646001971 * 2 ^ e) * 100" by simp
    moreover have "(4278419646001971 * 2 ^ e) * 100 \<le> (95 * 2 ^ e) * (2::nat) ^ 52"
    proof -
      have "(4278419646001971::nat) * 100 \<le> 95 * 2 ^ 52" by simp
      then have "(4278419646001971 * 100) * 2 ^ e \<le> (95 * 2 ^ 52) * (2::nat) ^ e"
        by (rule mult_le_mono1)
      then show ?thesis by (simp only: mult_ac)
    qed
    ultimately have "(m * 100) * 2 ^ 52 < (95 * 2 ^ e) * 2 ^ 52" by (simp add: mult_ac)
    then have "m * 100 < 95 * 2 ^ e" by simp
    then have "dval d < 95 / 100" by (simp only: real95)
    with a show "dval d < 95 / 100 \<and> dval d \<noteq> literal_0_95" by simp
  next
    assume a: "dval d < 95 / 100 \<and> dval d \<noteq> literal_0_95"
    then have h2: "m * 100 < 95 * 2 ^ e" by (simp only: real95)
    show "dval d < literal_0_95"
    proof (rule ccontr)
      assume "\<not> dval d < literal_0_95"
      with a have "literal_0_95 < dval d" by simp
      then have h1: "4278419646001971 * 2 ^ e < m * 2 ^ 52" by (simp only: gt)
      have "(2::nat) ^ e < 2 ^ 54"
      proof -
        have "(2::nat) ^ 52 * 2 ^ e \<le> 2 * (4278419646001971 * 2 ^ e)" by simp
        with h1 have "(2::nat) ^ 52 * 2 ^ e < 2 * (m * 2 ^ 52)" by simp
        then have "2 ^ e < 2 * m" by simp
        with m53 show ?thesis by simp
      qed
      then have "e < 54" by (simp only: power_strict_increasing_iff rel_simps)
      then have "e + (53 - e) = 53" by simp
      then have p: "(2::nat) ^ 53 = 2 ^ e * 2 ^ (53 - e)" by (metis power_add)
      define k where "k = m * 2 ^ (53 - e)"
      from h1 have "(4278419646001971 * 2 ^ e) * 2 ^ (53 - e) < (m * 2 ^ 52) * 2 ^ (53 - e)"
        by simp
      then have "4278419646001971 * 2 ^ 53 < k * 2 ^ 52"
        unfolding k_def p by (simp add: mult_ac)
      then have k1: "8556839292003942 < k" by simp
      from h2 have "(m * 100) * 2 ^ (53 - e) < (95 * 2 ^ e) * 2 ^ (53 - e)" by simp
      then have k2: "k * 100 < 95 * 2 ^ 53" unfolding k_def p by (simp add: mult_ac)
      from k1 have "855683929200394300 \<le> k * 100" by simp
      with k2 show False by simp
    qed
  qed
qed

subsection \<open>The example draws\<close>

lemma draws_valid:
  "isDraw draw_0 \<and> isDraw draw_0_5 \<and> isDraw draw_0_05 \<and> isDraw draw_0_9 \<and> isDraw draw_0_7
   \<and> isDraw draw_0_8333 \<and> isDraw draw_0_3333 \<and> isDraw draw_0_75 \<and> isDraw draw_0_95"
  by (simp add: isDraw_def draw_0_def draw_0_5_def draw_0_05_def draw_0_9_def draw_0_7_def
      draw_0_8333_def draw_0_3333_def draw_0_75_def draw_0_95_def)

lemma draws_trick: "dval draw_0_05 < literal_0_10 \<and> \<not> dval draw_0_5 < literal_0_10"
  by (simp add: dval_def draw_0_05_def draw_0_5_def literal_0_10_def)

lemma draws_tier:
  "dval draw_0_5 < literal_0_75
   \<and> dval draw_0_75 = literal_0_75 \<and> dval draw_0_75 < literal_0_95
   \<and> \<not> dval draw_0_9 < literal_0_75 \<and> dval draw_0_9 < literal_0_95
   \<and> dval draw_0_95 = literal_0_95"
  by (simp add: dval_def draw_0_5_def draw_0_75_def draw_0_9_def draw_0_95_def
      literal_0_75_def literal_0_95_def)

lemma floors_at_draws:
  "\<lfloor>jsTimes draw_0_8333 6\<rfloor> = 5 \<and> \<lfloor>jsTimes draw_0_9 6\<rfloor> = 5 \<and> \<lfloor>jsTimes draw_0_3333 3\<rfloor> = 1
   \<and> \<lfloor>jsTimes draw_0 3\<rfloor> = 0 \<and> \<lfloor>jsTimes draw_0_5 3\<rfloor> = 1
   \<and> \<lfloor>jsTimes draw_0_5 5\<rfloor> = 2 \<and> \<lfloor>jsTimes draw_0_7 10\<rfloor> = 7 \<and> \<lfloor>jsTimes draw_0_7 20\<rfloor> = 14"
  by (simp add: jsTimes_eval draw_0_8333_def draw_0_9_def draw_0_3333_def draw_0_def
      draw_0_5_def draw_0_7_def)

text \<open>
  At three of these draws the floor of the exact product is one less than the floor of
  the double product: the rounding of the multiplication carries the product to the next
  integer.
\<close>

lemma exact_floors_at_draws:
  "\<lfloor>dval draw_0_8333 * 6\<rfloor> = 4 \<and> \<lfloor>dval draw_0_3333 * 3\<rfloor> = 0 \<and> \<lfloor>dval draw_0_7 * 10\<rfloor> = 6"
  by (simp add: dval_def draw_0_8333_def draw_0_3333_def draw_0_7_def)

lemma rewardEmbed_throws: "rewardEmbed out written = Inl ValidationError"
  by (simp add: rewardEmbed_def setDescription_def)

lemma treat_at_halves:
  "computeOutcome c draw_0_5 draw_0_5 draw_0_5 =
     \<lparr>taken = Common, candyChange = 3, out_title = ''A Sweet Treat!'', out_color = ''#ff6700'',
      message = Some (''You got '' @ showInt 3 @ '' pieces of candy!'')\<rparr>"
  using draws_trick draws_tier floors_at_draws by (simp add: computeOutcome_def Let_def)


section \<open>The cooldown gate\<close>

text \<open>
  Claim C4. The cooldown is 2 hours in milliseconds. For every stored \<open>lastUsed\<close> and every
  \<open>now\<close>, the reward action goes on to the draw exactly when
  \<open>lastUsed + cooldown \<le> now\<close>; when \<open>now < lastUsed + cooldown\<close> it is blocked, the reply
  is the cooldown reply for \<open>remaining = lastUsed + cooldown - now\<close>, and that remaining time
  is strictly positive.
\<close>

theorem cooldown_gate:
  "COOLDOWN_TIME = 2 * (60 * 60 * 1000)
   \<and> ((\<exists>out. prepare w u now d1 d2 d3 = Ready out)
        = (lastUsed (getUserProfile w (user_id u)) + COOLDOWN_TIME \<le> now))
   \<and> (now < lastUsed (getUserProfile w (user_id u)) + COOLDOWN_TIME \<longrightarrow>
        prepare w u now d1 d2 d3
          = Blocked (cooldownReply (lastUsed (getUserProfile w (user_id u)) + COOLDOWN_TIME - now))
        \<and> 0 < lastUsed (getUserProfile w (user_id u)) + COOLDOWN_TIME - now)"
  by (simp add: prepare_def Let_def COOLDOWN_TIME_def)

theorem cooldown_gate_witness:
  "lastUsed (getUserProfile exampleWorld (user_id exampleUser)) = 1000000
   \<and> (1000000 :: int) + COOLDOWN_TIME \<le> 8200000
   \<and> (\<exists>out. prepare exampleWorld exampleUser 8200000 draw_0_5 draw_0_5 draw_0_5 = Ready out)
   \<and> (8199000 :: int) < 1000000 + COOLDOWN_TIME
   \<and> prepare exampleWorld exampleUser 8199000 draw_0_5 draw_0_5 draw_0_5 = Blocked (cooldownReply 1000)"
proof -
  have p: "getUserProfile exampleWorld (user_id exampleUser) = exampleProfile"
    by (rule exampleWorld_profile)
  show ?thesis
    using cooldown_gate [of exampleWorld exampleUser 8200000 draw_0_5 draw_0_5 draw_0_5]
      cooldown_gate [of exampleWorld exampleUser 8199000 draw_0_5 draw_0_5 draw_0_5]
    by (simp add: p exampleProfile_def COOLDOWN_TIME_ms)
qed

text \<open>
  Claim C5. For a blocked action (\<open>remaining > 0\<close>) the wait shown is
  \<open><hours>h <minutes>m\<close>, where the hours are the floor of \<open>remaining\<close> over one hour and
  the minutes are the ceiling, over one minute, of what is left after the whole hours are
  removed. A remaining time of 5,400,000 ms is shown as \<open>1h 30m\<close>; for 1000 ms the wait
  shown is \<open>0h 1m\<close>, the minutes being 1 and not 0.
\<close>

theorem remaining_time_display:
  assumes "0 < remaining"
  shows
  "remainingHours remaining = remaining div 3600000
   \<and> 3600000 * remainingHours remaining \<le> remaining
   \<and> remaining < 3600000 * (remainingHours remaining + 1)
   \<and> remainingMinutes remaining = \<lceil>real_of_int (remaining mod 3600000) / 60000\<rceil>
   \<and> remaining mod 3600000 = remaining - 3600000 * remainingHours remaining
   \<and> 60000 * (remainingMinutes remaining - 1) < remaining mod 3600000
   \<and> remaining mod 3600000 \<le> 60000 * remainingMinutes remaining
   \<and> waitText remaining
       = showInt (remaining div 3600000) @ ''h ''
         @ showInt (- ((- (remaining mod 3600000)) div 60000)) @ ''m''
   \<and> cooldownReply remaining
       = Content (hourglass @ '' You must wait **'' @ waitText remaining
           @ ''** before trick-or-treating again. The spooks are resting!'')
   \<and> waitText 5400000 = ''1h 30m''
   \<and> waitText 1000 = ''0h 1m''
   \<and> remainingMinutes 1000 = 1
   \<and> waitText 60000 = ''0h 1m''
   \<and> waitText 60001 = ''0h 2m''
   \<and> waitText 3600000 = ''1h 0m''
   \<and> waitText 7199999 = ''1h 60m''"
proof -
  have nn: "0 \<le> remaining" using assms by simp
  have h: "remainingHours remaining = remaining div 3600000" by (rule remainingHours_div)
  have m1: "remainingMinutes remaining = \<lceil>real_of_int (remaining mod 3600000) / 60000\<rceil>"
    unfolding remainingMinutes_def using nn by (simp add: jsRem_nonneg)
  have m2: "remainingMinutes remaining = - ((- (remaining mod 3600000)) div 60000)"
    using nn by (rule remainingMinutes_div)
  have b1: "3600000 * remainingHours remaining \<le> remaining"
    and b2: "remaining < 3600000 * (remainingHours remaining + 1)"
    and b3: "remaining mod 3600000 = remaining - 3600000 * remainingHours remaining"
    unfolding h using div_bounds [of 3600000 remaining] by simp_all
  have b4: "60000 * (remainingMinutes remaining - 1) < remaining mod 3600000"
    and b5: "remaining mod 3600000 \<le> 60000 * remainingMinutes remaining"
    unfolding m2 using ceil_bounds [of 60000 "remaining mod 3600000"] by simp_all
  have t: "waitText remaining
       = showInt (remaining div 3600000) @ ''h ''
         @ showInt (- ((- (remaining mod 3600000)) div 60000)) @ ''m''"
    unfolding waitText_def h m2 by (rule refl)
  have r: "cooldownReply remaining
       = Content (hourglass @ '' You must wait **'' @ waitText remaining
           @ ''** before trick-or-treating again. The spooks are resting!'')"
    by (rule cooldownReply_def)
  have e1: "waitText 5400000 = ''1h 30m''"
    by (simp add: waitText_def remainingHours_div remainingMinutes_div showInt_def showNat.simps digit_def)
  have e2: "waitText 1000 = ''0h 1m''"
    by (simp add: waitText_def remainingHours_div remainingMinutes_div showInt_def showNat.simps digit_def)
  have e3: "remainingMinutes 1000 = 1"
    by (simp add: remainingMinutes_div)
  have e4: "waitText 60000 = ''0h 1m''"
    by (simp add: waitText_def remainingHours_div remainingMinutes_div showInt_def showNat.simps digit_def)
  have e5: "waitText 60001 = ''0h 2m''"
    by (simp add: waitText_def remainingHours_div remainingMinutes_div showInt_def showNat.simps digit_def)
  have e6: "waitText 3600000 = ''1h 0m''"
    by (simp add: waitText_def remainingHours_div remainingMinutes_div showInt_def showNat.simps digit_def)
  have e7: "waitText 7199999 = ''1h 60m''"
    by (simp add: waitText_def remainingHours_div remainingMinutes_div showInt_def showNat.simps digit_def)
  show ?thesis using h m1 b1 b2 b3 b4 b5 t r e1 e2 e3 e4 e5 e6 e7 by blast
qed

theorem remaining_time_display_witness:
  "(0::int) < 5400000 \<and> remainingHours 5400000 = 1 \<and> remainingMinutes 5400000 = 30
   \<and> waitText 5400000 = ''1h 30m''
   \<and> cooldownReply 5400000
       = Content (hourglass
           @ '' You must wait **1h 30m** before trick-or-treating again. The spooks are resting!'')"
proof -
  have h: "(0::int) < 5400000" by simp
  note t = remaining_time_display [OF h]
  from t have w: "waitText 5400000 = ''1h 30m''" by blast
  from t have "cooldownReply 5400000
       = Content (hourglass @ '' You must wait **'' @ waitText 5400000
           @ ''** before trick-or-treating again. The spooks are resting!'')" by blast
  then have c: "cooldownReply 5400000
       = Content (hourglass
           @ '' You must wait **1h 30m** before trick-or-treating again. The spooks are resting!'')"
    unfolding w by simp
  from t have "remainingHours 5400000 = 5400000 div 3600000" by blast
  then have a: "remainingHours 5400000 = 1" by simp
  have b: "remainingMinutes 5400000 = 30" by (simp add: remainingMinutes_div)
  show ?thesis using h a b w c by blast
qed


section \<open>The random outcome\<close>

text \<open>
  Claim C2. The outcome is a trick exactly when the first draw is below the literal
  \<^verbatim>\<open>0.10\<close>, which for a double is the same as being below one tenth. In a trick the
  magnitude \<open>m\<close> is the floor of the double product \<^verbatim>\<open>d2 * 6\<close> plus 1 and lies in
  1..6; it is the floor of the exact product plus 1, unless the exact product lies within
  \<open>2^-49\<close> below an integer, where the rounding may carry it to that integer (each
  magnitude is drawn on an interval of \<open>d2\<close> of length 1/6 up to \<open>2^-49\<close>, uniform for a
  uniform draw). The change is \<open>- m\<close>, replaced by \<open>- currentCandy\<close> whenever
  \<open>currentCandy - m < 0\<close>, so that the balance of the read floors at exactly 0. The
  message is one of three fixed lines, chosen by the floor of the double product
  \<^verbatim>\<open>d3 * 3\<close>, and reports the absolute value of the change after the clamp. At the
  draws 0.05, 0.8333333333333333, 0.3333333333333333 with balance 10 the change is
  \<open>- 6\<close> and the line is the second one; at 0.05, 0.9, 0 with balance 2 the change is
  clamped to \<open>- 2\<close> and the message reports 2.
\<close>

theorem trick_branch:
  assumes "isDraw d1" and "isDraw d2" and "isDraw d3"
  shows
  "(taken (computeOutcome c d1 d2 d3) = Trick) = (dval d1 < literal_0_10)
   \<and> (dval d1 < literal_0_10) = (dval d1 < 1 / 10)
   \<and> (dval d1 < literal_0_10 \<longrightarrow>
        (let m = \<lfloor>jsTimes d2 6\<rfloor> + 1; out = computeOutcome c d1 d2 d3 in
           1 \<le> m \<and> m \<le> 6
         \<and> \<lfloor>dval d2 * 6\<rfloor> + 1 \<le> m \<and> m \<le> \<lfloor>dval d2 * 6 + 1 / 2 ^ 49\<rfloor> + 1
         \<and> candyChange out = (if c + (- m) < 0 then - c else - m)
         \<and> (c + (- m) < 0 \<longrightarrow> c + candyChange out = 0)
         \<and> (0 \<le> c \<longrightarrow> 0 \<le> c + candyChange out)
         \<and> 3 \<le> length (tricks (candyChange out))
         \<and> 0 \<le> \<lfloor>jsTimes d3 3\<rfloor> \<and> \<lfloor>jsTimes d3 3\<rfloor> < 3
         \<and> \<lfloor>dval d3 * 3\<rfloor> \<le> \<lfloor>jsTimes d3 3\<rfloor>
         \<and> \<lfloor>jsTimes d3 3\<rfloor> \<le> \<lfloor>dval d3 * 3 + 1 / 2 ^ 49\<rfloor>
         \<and> message out = Some (tricks (candyChange out) ! nat \<lfloor>jsTimes d3 3\<rfloor>)
         \<and> (\<exists>pre. message out
                = Some (pre @ ''**'' @ showInt \<bar>candyChange out\<bar> @ ''** candy.''))))
   \<and> candyChange (computeOutcome 10 draw_0_05 draw_0_8333 draw_0_3333) = - 6
   \<and> message (computeOutcome 10 draw_0_05 draw_0_8333 draw_0_3333)
       = Some ''You stepped on a cursed pumpkin! Your pants are wet, and you dropped **6** candy.''
   \<and> candyChange (computeOutcome 2 draw_0_05 draw_0_9 draw_0) = - 2
   \<and> message (computeOutcome 2 draw_0_05 draw_0_9 draw_0)
       = Some ''A zombie swapped your bag for one full of leaves! You lost **2** candy.''"
proof -
  have m: "0 \<le> \<lfloor>jsTimes d2 6\<rfloor> \<and> \<lfloor>jsTimes d2 6\<rfloor> < 6
      \<and> \<lfloor>dval d2 * 6\<rfloor> \<le> \<lfloor>jsTimes d2 6\<rfloor>
      \<and> \<lfloor>jsTimes d2 6\<rfloor> \<le> \<lfloor>dval d2 * 6 + 1 / 2 ^ 49\<rfloor>"
    using floor_jsTimes[OF assms(2), of 6] by simp
  have j: "0 \<le> \<lfloor>jsTimes d3 3\<rfloor> \<and> \<lfloor>jsTimes d3 3\<rfloor> < 3
      \<and> \<lfloor>dval d3 * 3\<rfloor> \<le> \<lfloor>jsTimes d3 3\<rfloor>
      \<and> \<lfloor>jsTimes d3 3\<rfloor> \<le> \<lfloor>dval d3 * 3 + 1 / 2 ^ 49\<rfloor>"
    using floor_jsTimes[OF assms(3), of 3] by simp
  have kind: "(taken (computeOutcome c d1 d2 d3) = Trick) = (dval d1 < literal_0_10)"
    by (simp add: computeOutcome_def Let_def)
  have cut: "(dval d1 < literal_0_10) = (dval d1 < 1 / 10)"
    using assms(1) by (rule literal_0_10_cut)
  have idx: "nat \<lfloor>jsTimes d3 3\<rfloor> < 3" using j by linarith
  have msg: "\<And>x. jsIndex (tricks x) \<lfloor>jsTimes d3 (length (tricks x))\<rfloor>
      = Some (tricks x ! nat \<lfloor>jsTimes d3 3\<rfloor>)"
    using j by (simp add: jsIndex_def tricks_length)
  have rep: "\<And>x. \<exists>pre. tricks x ! nat \<lfloor>jsTimes d3 3\<rfloor> = pre @ ''**'' @ showInt \<bar>x\<bar> @ ''** candy.''"
  proof -
    fix x
    from idx have "nat \<lfloor>jsTimes d3 3\<rfloor> < length (tricks x)" by (simp only: tricks_length)
    then have "tricks x ! nat \<lfloor>jsTimes d3 3\<rfloor> \<in> set (tricks x)" by (rule nth_mem)
    then show "\<exists>pre. tricks x ! nat \<lfloor>jsTimes d3 3\<rfloor> = pre @ ''**'' @ showInt \<bar>x\<bar> @ ''** candy.''"
      by (rule tricks_report)
  qed
  have general: "dval d1 < literal_0_10 \<longrightarrow>
        (let m = \<lfloor>jsTimes d2 6\<rfloor> + 1; out = computeOutcome c d1 d2 d3 in
           1 \<le> m \<and> m \<le> 6
         \<and> \<lfloor>dval d2 * 6\<rfloor> + 1 \<le> m \<and> m \<le> \<lfloor>dval d2 * 6 + 1 / 2 ^ 49\<rfloor> + 1
         \<and> candyChange out = (if c + (- m) < 0 then - c else - m)
         \<and> (c + (- m) < 0 \<longrightarrow> c + candyChange out = 0)
         \<and> (0 \<le> c \<longrightarrow> 0 \<le> c + candyChange out)
         \<and> 3 \<le> length (tricks (candyChange out))
         \<and> 0 \<le> \<lfloor>jsTimes d3 3\<rfloor> \<and> \<lfloor>jsTimes d3 3\<rfloor> < 3
         \<and> \<lfloor>dval d3 * 3\<rfloor> \<le> \<lfloor>jsTimes d3 3\<rfloor>
         \<and> \<lfloor>jsTimes d3 3\<rfloor> \<le> \<lfloor>dval d3 * 3 + 1 / 2 ^ 49\<rfloor>
         \<and> message out = Some (tricks (candyChange out) ! nat \<lfloor>jsTimes d3 3\<rfloor>)
         \<and> (\<exists>pre. message out
                = Some (pre @ ''**'' @ showInt \<bar>candyChange out\<bar> @ ''** candy.'')))"
  proof
    assume t: "dval d1 < literal_0_10"
    define m where "m = \<lfloor>jsTimes d2 6\<rfloor> + 1"
    define change where "change = (if c + (- m) < 0 then - c else - m)"
    have out: "computeOutcome c d1 d2 d3 =
        \<lparr>taken = Trick, candyChange = change, out_title = ''A Nasty Trick!'',
         out_color = ''#b22222'', message = Some (tricks change ! nat \<lfloor>jsTimes d3 3\<rfloor>)\<rparr>"
      using t by (simp add: computeOutcome_def Let_def msg change_def m_def)
    have r1: "1 \<le> m \<and> m \<le> 6" using m unfolding m_def by linarith
    have r2: "\<lfloor>dval d2 * 6\<rfloor> + 1 \<le> m \<and> m \<le> \<lfloor>dval d2 * 6 + 1 / 2 ^ 49\<rfloor> + 1"
      using m unfolding m_def by linarith
    have r3: "c + (- m) < 0 \<longrightarrow> c + change = 0" unfolding change_def by simp
    have r4: "0 \<le> c \<longrightarrow> 0 \<le> c + change" unfolding change_def by simp
    from rep[of change] obtain pre where
      pre: "tricks change ! nat \<lfloor>jsTimes d3 3\<rfloor> = pre @ ''**'' @ showInt \<bar>change\<bar> @ ''** candy.''"
      by blast
    have r5: "\<exists>pre. message (computeOutcome c d1 d2 d3)
        = Some (pre @ ''**'' @ showInt \<bar>candyChange (computeOutcome c d1 d2 d3)\<bar> @ ''** candy.'')"
      unfolding out using pre by simp
    have r6: "candyChange (computeOutcome c d1 d2 d3) = change" unfolding out by simp
    have r7: "message (computeOutcome c d1 d2 d3) = Some (tricks change ! nat \<lfloor>jsTimes d3 3\<rfloor>)"
      unfolding out by simp
    have r8: "3 \<le> length (tricks change)" by (simp add: tricks_length)
    show "(let m = \<lfloor>jsTimes d2 6\<rfloor> + 1; out = computeOutcome c d1 d2 d3 in
           1 \<le> m \<and> m \<le> 6
         \<and> \<lfloor>dval d2 * 6\<rfloor> + 1 \<le> m \<and> m \<le> \<lfloor>dval d2 * 6 + 1 / 2 ^ 49\<rfloor> + 1
         \<and> candyChange out = (if c + (- m) < 0 then - c else - m)
         \<and> (c + (- m) < 0 \<longrightarrow> c + candyChange out = 0)
         \<and> (0 \<le> c \<longrightarrow> 0 \<le> c + candyChange out)
         \<and> 3 \<le> length (tricks (candyChange out))
         \<and> 0 \<le> \<lfloor>jsTimes d3 3\<rfloor> \<and> \<lfloor>jsTimes d3 3\<rfloor> < 3
         \<and> \<lfloor>dval d3 * 3\<rfloor> \<le> \<lfloor>jsTimes d3 3\<rfloor>
         \<and> \<lfloor>jsTimes d3 3\<rfloor> \<le> \<lfloor>dval d3 * 3 + 1 / 2 ^ 49\<rfloor>
         \<and> message out = Some (tricks (candyChange out) ! nat \<lfloor>jsTimes d3 3\<rfloor>)
         \<and> (\<exists>pre. message out
                = Some (pre @ ''**'' @ showInt \<bar>candyChange out\<bar> @ ''** candy.'')))"
      unfolding Let_def m_def[symmetric] r6 r7
      using r1 r2 r3 r4 r5[unfolded r6 r7] r8 j change_def by blast
  qed
  have o1: "computeOutcome 10 draw_0_05 draw_0_8333 draw_0_3333 =
      \<lparr>taken = Trick, candyChange = - 6, out_title = ''A Nasty Trick!'', out_color = ''#b22222'',
       message = Some (tricks (- 6) ! 1)\<rparr>"
    using draws_trick floors_at_draws
    by (simp add: computeOutcome_def Let_def jsIndex_def tricks_length)
  have o2: "computeOutcome 2 draw_0_05 draw_0_9 draw_0 =
      \<lparr>taken = Trick, candyChange = - 2, out_title = ''A Nasty Trick!'', out_color = ''#b22222'',
       message = Some (tricks (- 2) ! 0)\<rparr>"
    using draws_trick floors_at_draws
    by (simp add: computeOutcome_def Let_def jsIndex_def tricks_length)
  have e1: "candyChange (computeOutcome 10 draw_0_05 draw_0_8333 draw_0_3333) = - 6"
    unfolding o1 by simp
  have e2: "message (computeOutcome 10 draw_0_05 draw_0_8333 draw_0_3333)
       = Some ''You stepped on a cursed pumpkin! Your pants are wet, and you dropped **6** candy.''"
    unfolding o1 by (simp add: tricks_def showInt_def showNat.simps digit_def)
  have e3: "candyChange (computeOutcome 2 draw_0_05 draw_0_9 draw_0) = - 2"
    unfolding o2 by simp
  have e4: "message (computeOutcome 2 draw_0_05 draw_0_9 draw_0)
       = Some ''A zombie swapped your bag for one full of leaves! You lost **2** candy.''"
    unfolding o2 by (simp add: tricks_def showInt_def showNat.simps digit_def)
  show ?thesis using kind cut general e1 e2 e3 e4 by blast
qed

theorem trick_branch_witness:
  "isDraw draw_0_05 \<and> isDraw draw_0_8333 \<and> isDraw draw_0_3333 \<and> isDraw draw_0_9 \<and> isDraw draw_0
   \<and> dval draw_0_05 < literal_0_10
   \<and> taken (computeOutcome 10 draw_0_05 draw_0_8333 draw_0_3333) = Trick
   \<and> \<lfloor>jsTimes draw_0_8333 6\<rfloor> + 1 = 6
   \<and> candyChange (computeOutcome 10 draw_0_05 draw_0_8333 draw_0_3333) = - 6
   \<and> \<lfloor>jsTimes draw_0_9 6\<rfloor> + 1 = 6
   \<and> (2::int) + (- 6) < 0
   \<and> 2 + candyChange (computeOutcome 2 draw_0_05 draw_0_9 draw_0) = 0
   \<and> message (computeOutcome 2 draw_0_05 draw_0_9 draw_0)
       = Some ''A zombie swapped your bag for one full of leaves! You lost **2** candy.''"
proof -
  have v: "isDraw draw_0_05" "isDraw draw_0_8333" "isDraw draw_0_3333" "isDraw draw_0_9"
    "isDraw draw_0" using draws_valid by blast+
  have t: "dval draw_0_05 < literal_0_10" using draws_trick by blast
  have f1: "\<lfloor>jsTimes draw_0_8333 6\<rfloor> + 1 = 6" and f2: "\<lfloor>jsTimes draw_0_9 6\<rfloor> + 1 = 6"
    using floors_at_draws by simp_all
  note a = trick_branch [OF v(1) v(2) v(3), of 10]
  note b = trick_branch [OF v(1) v(4) v(5), of 2]
  from a t have k: "taken (computeOutcome 10 draw_0_05 draw_0_8333 draw_0_3333) = Trick" by blast
  from a have c1: "candyChange (computeOutcome 10 draw_0_05 draw_0_8333 draw_0_3333) = - 6" by blast
  from b t have "(let m = \<lfloor>jsTimes draw_0_9 6\<rfloor> + 1; out = computeOutcome 2 draw_0_05 draw_0_9 draw_0 in
      (2 + (- m) < 0 \<longrightarrow> 2 + candyChange out = 0))"
    unfolding Let_def by blast
  then have c2: "2 + candyChange (computeOutcome 2 draw_0_05 draw_0_9 draw_0) = 0"
    unfolding Let_def f2 by simp
  from b have ms: "message (computeOutcome 2 draw_0_05 draw_0_9 draw_0)
       = Some ''A zombie swapped your bag for one full of leaves! You lost **2** candy.''" by blast
  have n: "(2::int) + (- 6) < 0" by simp
  show ?thesis using v t k f1 c1 f2 n c2 ms by blast
qed

text \<open>
  Claim C3. In a treat (first draw not below the literal \<^verbatim>\<open>0.10\<close>) the second draw
  selects the tier by the literals \<^verbatim>\<open>0.75\<close> (exactly 3/4) and \<^verbatim>\<open>0.95\<close> (the double
  nearest to 95/100, which lies below it): below \<^verbatim>\<open>0.75\<close> Common with a magnitude in
  1..5, from \<^verbatim>\<open>0.75\<close> and below \<^verbatim>\<open>0.95\<close> Rare with a magnitude in 6..15, from
  \<^verbatim>\<open>0.95\<close> Jackpot with a magnitude in 16..35. A draw is below the literal
  \<^verbatim>\<open>0.95\<close> exactly when it is below 95/100 and is not the double \<^verbatim>\<open>0.95\<close> itself. A
  draw of exactly \<^verbatim>\<open>0.75\<close> is Rare and a draw of exactly \<^verbatim>\<open>0.95\<close> is Jackpot.
  Within a tier the magnitude is the floor of the double product of the third draw and
  the width of the tier, plus the lowest magnitude; it is the same with the exact product,
  unless the exact product lies within \<open>2^-49\<close> below an integer. The change is the
  magnitude itself, positive whatever the balance. At the third draw 0.7 the Rare tier
  pays 13 and the Jackpot tier pays 30.
\<close>

theorem treat_branch:
  assumes "isDraw d2" and "isDraw d3" and "\<not> dval d1 < literal_0_10"
  shows
  "(let out = computeOutcome c d1 d2 d3 in
      taken out \<noteq> Trick
    \<and> (dval d2 < literal_0_75 \<longrightarrow>
          taken out = Common \<and> candyChange out = \<lfloor>jsTimes d3 5\<rfloor> + 1
          \<and> 1 \<le> candyChange out \<and> candyChange out \<le> 5
          \<and> \<lfloor>dval d3 * 5\<rfloor> + 1 \<le> candyChange out
          \<and> candyChange out \<le> \<lfloor>dval d3 * 5 + 1 / 2 ^ 49\<rfloor> + 1)
    \<and> (literal_0_75 \<le> dval d2 \<and> dval d2 < literal_0_95 \<longrightarrow>
          taken out = Rare \<and> candyChange out = \<lfloor>jsTimes d3 10\<rfloor> + 6
          \<and> 6 \<le> candyChange out \<and> candyChange out \<le> 15
          \<and> \<lfloor>dval d3 * 10\<rfloor> + 6 \<le> candyChange out
          \<and> candyChange out \<le> \<lfloor>dval d3 * 10 + 1 / 2 ^ 49\<rfloor> + 6)
    \<and> (literal_0_95 \<le> dval d2 \<longrightarrow>
          taken out = Jackpot \<and> candyChange out = \<lfloor>jsTimes d3 20\<rfloor> + 16
          \<and> 16 \<le> candyChange out \<and> candyChange out \<le> 35
          \<and> \<lfloor>dval d3 * 20\<rfloor> + 16 \<le> candyChange out
          \<and> candyChange out \<le> \<lfloor>dval d3 * 20 + 1 / 2 ^ 49\<rfloor> + 16)
    \<and> 0 < candyChange out)
   \<and> literal_0_75 = 3 / 4
   \<and> (dval d2 < literal_0_95) = (dval d2 < 95 / 100 \<and> dval d2 \<noteq> literal_0_95)
   \<and> (dval d2 = literal_0_75 \<longrightarrow> taken (computeOutcome c d1 d2 d3) = Rare)
   \<and> (dval d2 = literal_0_95 \<longrightarrow> taken (computeOutcome c d1 d2 d3) = Jackpot)
   \<and> dval draw_0_75 = literal_0_75 \<and> dval draw_0_95 = literal_0_95
   \<and> taken (computeOutcome 0 draw_0_5 draw_0_75 draw_0_7) = Rare
   \<and> candyChange (computeOutcome 0 draw_0_5 draw_0_75 draw_0_7) = 13
   \<and> taken (computeOutcome 0 draw_0_5 draw_0_95 draw_0_7) = Jackpot
   \<and> candyChange (computeOutcome 0 draw_0_5 draw_0_95 draw_0_7) = 30
   \<and> taken (computeOutcome 0 draw_0_5 draw_0_5 draw_0_5) = Common
   \<and> candyChange (computeOutcome 0 draw_0_5 draw_0_5 draw_0_5) = 3"
proof -
  have r5: "0 \<le> \<lfloor>jsTimes d3 5\<rfloor> \<and> \<lfloor>jsTimes d3 5\<rfloor> < 5
      \<and> \<lfloor>dval d3 * 5\<rfloor> \<le> \<lfloor>jsTimes d3 5\<rfloor>
      \<and> \<lfloor>jsTimes d3 5\<rfloor> \<le> \<lfloor>dval d3 * 5 + 1 / 2 ^ 49\<rfloor>"
    using floor_jsTimes[OF assms(2), of 5] by simp
  have r10: "0 \<le> \<lfloor>jsTimes d3 10\<rfloor> \<and> \<lfloor>jsTimes d3 10\<rfloor> < 10
      \<and> \<lfloor>dval d3 * 10\<rfloor> \<le> \<lfloor>jsTimes d3 10\<rfloor>
      \<and> \<lfloor>jsTimes d3 10\<rfloor> \<le> \<lfloor>dval d3 * 10 + 1 / 2 ^ 49\<rfloor>"
    using floor_jsTimes[OF assms(2), of 10] by simp
  have r20: "0 \<le> \<lfloor>jsTimes d3 20\<rfloor> \<and> \<lfloor>jsTimes d3 20\<rfloor> < 20
      \<and> \<lfloor>dval d3 * 20\<rfloor> \<le> \<lfloor>jsTimes d3 20\<rfloor>
      \<and> \<lfloor>jsTimes d3 20\<rfloor> \<le> \<lfloor>dval d3 * 20 + 1 / 2 ^ 49\<rfloor>"
    using floor_jsTimes[OF assms(2), of 20] by simp
  note nt = assms(3)
  have lt: "literal_0_75 < literal_0_95" by (simp add: literal_0_75_def literal_0_95_def)
  have common: "dval d2 < literal_0_75 \<Longrightarrow>
      taken (computeOutcome c d1 d2 d3) = Common
      \<and> candyChange (computeOutcome c d1 d2 d3) = \<lfloor>jsTimes d3 5\<rfloor> + 1"
    using nt by (simp add: computeOutcome_def Let_def)
  have rare: "literal_0_75 \<le> dval d2 \<Longrightarrow> dval d2 < literal_0_95 \<Longrightarrow>
      taken (computeOutcome c d1 d2 d3) = Rare
      \<and> candyChange (computeOutcome c d1 d2 d3) = \<lfloor>jsTimes d3 10\<rfloor> + 6"
    using nt by (simp add: computeOutcome_def Let_def)
  have jackpot: "literal_0_95 \<le> dval d2 \<Longrightarrow>
      taken (computeOutcome c d1 d2 d3) = Jackpot
      \<and> candyChange (computeOutcome c d1 d2 d3) = \<lfloor>jsTimes d3 20\<rfloor> + 16"
    using nt lt by (simp add: computeOutcome_def Let_def)
  have c1: "dval d2 < literal_0_75 \<longrightarrow>
          taken (computeOutcome c d1 d2 d3) = Common
          \<and> candyChange (computeOutcome c d1 d2 d3) = \<lfloor>jsTimes d3 5\<rfloor> + 1
          \<and> 1 \<le> candyChange (computeOutcome c d1 d2 d3)
          \<and> candyChange (computeOutcome c d1 d2 d3) \<le> 5
          \<and> \<lfloor>dval d3 * 5\<rfloor> + 1 \<le> candyChange (computeOutcome c d1 d2 d3)
          \<and> candyChange (computeOutcome c d1 d2 d3) \<le> \<lfloor>dval d3 * 5 + 1 / 2 ^ 49\<rfloor> + 1"
  proof
    assume "dval d2 < literal_0_75"
    from common[OF this] r5 show "taken (computeOutcome c d1 d2 d3) = Common
          \<and> candyChange (computeOutcome c d1 d2 d3) = \<lfloor>jsTimes d3 5\<rfloor> + 1
          \<and> 1 \<le> candyChange (computeOutcome c d1 d2 d3)
          \<and> candyChange (computeOutcome c d1 d2 d3) \<le> 5
          \<and> \<lfloor>dval d3 * 5\<rfloor> + 1 \<le> candyChange (computeOutcome c d1 d2 d3)
          \<and> candyChange (computeOutcome c d1 d2 d3) \<le> \<lfloor>dval d3 * 5 + 1 / 2 ^ 49\<rfloor> + 1"
      by linarith
  qed
  have c2: "literal_0_75 \<le> dval d2 \<and> dval d2 < literal_0_95 \<longrightarrow>
          taken (computeOutcome c d1 d2 d3) = Rare
          \<and> candyChange (computeOutcome c d1 d2 d3) = \<lfloor>jsTimes d3 10\<rfloor> + 6
          \<and> 6 \<le> candyChange (computeOutcome c d1 d2 d3)
          \<and> candyChange (computeOutcome c d1 d2 d3) \<le> 15
          \<and> \<lfloor>dval d3 * 10\<rfloor> + 6 \<le> candyChange (computeOutcome c d1 d2 d3)
          \<and> candyChange (computeOutcome c d1 d2 d3) \<le> \<lfloor>dval d3 * 10 + 1 / 2 ^ 49\<rfloor> + 6"
  proof
    assume a: "literal_0_75 \<le> dval d2 \<and> dval d2 < literal_0_95"
    then have "literal_0_75 \<le> dval d2" and "dval d2 < literal_0_95" by blast+
    from rare[OF this] r10 show "taken (computeOutcome c d1 d2 d3) = Rare
          \<and> candyChange (computeOutcome c d1 d2 d3) = \<lfloor>jsTimes d3 10\<rfloor> + 6
          \<and> 6 \<le> candyChange (computeOutcome c d1 d2 d3)
          \<and> candyChange (computeOutcome c d1 d2 d3) \<le> 15
          \<and> \<lfloor>dval d3 * 10\<rfloor> + 6 \<le> candyChange (computeOutcome c d1 d2 d3)
          \<and> candyChange (computeOutcome c d1 d2 d3) \<le> \<lfloor>dval d3 * 10 + 1 / 2 ^ 49\<rfloor> + 6"
      by linarith
  qed
  have c3: "literal_0_95 \<le> dval d2 \<longrightarrow>
          taken (computeOutcome c d1 d2 d3) = Jackpot
          \<and> candyChange (computeOutcome c d1 d2 d3) = \<lfloor>jsTimes d3 20\<rfloor> + 16
          \<and> 16 \<le> candyChange (computeOutcome c d1 d2 d3)
          \<and> candyChange (computeOutcome c d1 d2 d3) \<le> 35
          \<and> \<lfloor>dval d3 * 20\<rfloor> + 16 \<le> candyChange (computeOutcome c d1 d2 d3)
          \<and> candyChange (computeOutcome c d1 d2 d3) \<le> \<lfloor>dval d3 * 20 + 1 / 2 ^ 49\<rfloor> + 16"
  proof
    assume "literal_0_95 \<le> dval d2"
    from jackpot[OF this] r20 show "taken (computeOutcome c d1 d2 d3) = Jackpot
          \<and> candyChange (computeOutcome c d1 d2 d3) = \<lfloor>jsTimes d3 20\<rfloor> + 16
          \<and> 16 \<le> candyChange (computeOutcome c d1 d2 d3)
          \<and> candyChange (computeOutcome c d1 d2 d3) \<le> 35
          \<and> \<lfloor>dval d3 * 20\<rfloor> + 16 \<le> candyChange (computeOutcome c d1 d2 d3)
          \<and> candyChange (computeOutcome c d1 d2 d3) \<le> \<lfloor>dval d3 * 20 + 1 / 2 ^ 49\<rfloor> + 16"
      by linarith
  qed
  have pos: "0 < candyChange (computeOutcome c d1 d2 d3)"
  proof -
    consider "dval d2 < literal_0_75" | "literal_0_75 \<le> dval d2 \<and> dval d2 < literal_0_95"
      | "literal_0_95 \<le> dval d2"
      by linarith
    then show ?thesis
    proof cases
      case 1
      with c1 have "1 \<le> candyChange (computeOutcome c d1 d2 d3)" by blast
      then show ?thesis by linarith
    next
      case 2
      with c2 have "6 \<le> candyChange (computeOutcome c d1 d2 d3)" by blast
      then show ?thesis by linarith
    next
      case 3
      with c3 have "16 \<le> candyChange (computeOutcome c d1 d2 d3)" by blast
      then show ?thesis by linarith
    qed
  qed
  have ntr: "taken (computeOutcome c d1 d2 d3) \<noteq> Trick"
    using nt by (simp add: computeOutcome_def Let_def)
  have l75: "literal_0_75 = 3 / 4" by (rule literal_0_75_def)
  have cut: "(dval d2 < literal_0_95) = (dval d2 < 95 / 100 \<and> dval d2 \<noteq> literal_0_95)"
    using assms(1) by (rule literal_0_95_cut)
  have b1: "dval d2 = literal_0_75 \<longrightarrow> taken (computeOutcome c d1 d2 d3) = Rare"
    using rare lt by simp
  have b2: "dval d2 = literal_0_95 \<longrightarrow> taken (computeOutcome c d1 d2 d3) = Jackpot"
    using jackpot by simp
  have nt5: "\<not> dval draw_0_5 < literal_0_10" using draws_trick by blast
  have x1: "taken (computeOutcome 0 draw_0_5 draw_0_75 draw_0_7) = Rare
      \<and> candyChange (computeOutcome 0 draw_0_5 draw_0_75 draw_0_7) = 13"
    using nt5 draws_tier floors_at_draws by (simp add: computeOutcome_def Let_def)
  have x2: "taken (computeOutcome 0 draw_0_5 draw_0_95 draw_0_7) = Jackpot
      \<and> candyChange (computeOutcome 0 draw_0_5 draw_0_95 draw_0_7) = 30"
    using nt5 draws_tier floors_at_draws lt by (simp add: computeOutcome_def Let_def)
  have x3: "taken (computeOutcome 0 draw_0_5 draw_0_5 draw_0_5) = Common
      \<and> candyChange (computeOutcome 0 draw_0_5 draw_0_5 draw_0_5) = 3"
    using nt5 draws_tier floors_at_draws by (simp add: computeOutcome_def Let_def)
  have dv: "dval draw_0_75 = literal_0_75 \<and> dval draw_0_95 = literal_0_95"
    using draws_tier by blast
  show ?thesis
    unfolding Let_def using c1 c2 c3 pos ntr l75 cut b1 b2 dv x1 x2 x3 by blast
qed

theorem treat_branch_witness:
  "isDraw draw_0_5 \<and> isDraw draw_0_75 \<and> isDraw draw_0_95 \<and> isDraw draw_0_7
   \<and> \<not> dval draw_0_5 < literal_0_10
   \<and> dval draw_0_5 < literal_0_75
   \<and> taken (computeOutcome 0 draw_0_5 draw_0_5 draw_0_7) = Common
   \<and> dval draw_0_75 = literal_0_75
   \<and> literal_0_75 \<le> dval draw_0_75 \<and> dval draw_0_75 < literal_0_95
   \<and> taken (computeOutcome 0 draw_0_5 draw_0_75 draw_0_7) = Rare
   \<and> candyChange (computeOutcome 0 draw_0_5 draw_0_75 draw_0_7) = \<lfloor>jsTimes draw_0_7 10\<rfloor> + 6
   \<and> dval draw_0_95 = literal_0_95
   \<and> literal_0_95 \<le> dval draw_0_95
   \<and> taken (computeOutcome 0 draw_0_5 draw_0_95 draw_0_7) = Jackpot
   \<and> candyChange (computeOutcome 0 draw_0_5 draw_0_95 draw_0_7) = \<lfloor>jsTimes draw_0_7 20\<rfloor> + 16"
proof -
  have v: "isDraw draw_0_5" "isDraw draw_0_75" "isDraw draw_0_95" "isDraw draw_0_7"
    using draws_valid by blast+
  have nt: "\<not> dval draw_0_5 < literal_0_10" using draws_trick by blast
  have t1: "dval draw_0_5 < literal_0_75" using draws_tier by blast
  have t2: "literal_0_75 \<le> dval draw_0_75 \<and> dval draw_0_75 < literal_0_95"
    using draws_tier by simp
  have t3: "literal_0_95 \<le> dval draw_0_95" using draws_tier by simp
  note a = treat_branch [OF v(1) v(4) nt, of 0, unfolded Let_def]
  note b = treat_branch [OF v(2) v(4) nt, of 0, unfolded Let_def]
  note c = treat_branch [OF v(3) v(4) nt, of 0, unfolded Let_def]
  from a t1 have r1: "taken (computeOutcome 0 draw_0_5 draw_0_5 draw_0_7) = Common" by blast
  from b t2 have r2: "taken (computeOutcome 0 draw_0_5 draw_0_75 draw_0_7) = Rare
      \<and> candyChange (computeOutcome 0 draw_0_5 draw_0_75 draw_0_7) = \<lfloor>jsTimes draw_0_7 10\<rfloor> + 6"
    by blast
  from c t3 have r3: "taken (computeOutcome 0 draw_0_5 draw_0_95 draw_0_7) = Jackpot
      \<and> candyChange (computeOutcome 0 draw_0_5 draw_0_95 draw_0_7) = \<lfloor>jsTimes draw_0_7 20\<rfloor> + 16"
    by blast
  have eq: "dval draw_0_75 = literal_0_75" "dval draw_0_95 = literal_0_95"
    using draws_tier by blast+
  show ?thesis using v nt t1 t2 t3 r1 r2 r3 eq by blast
qed


section \<open>The committed balance\<close>

text \<open>
  Claim C1. The claim is that the trick deduction is clamped against the balance the
  transaction reads, so that a transaction reading a balance \<open>c \<ge> 0\<close> commits
  \<open>c + candyChange \<ge> 0\<close>. The code clamps against the balance read before the draw and
  adds the change unclamped inside the transaction. Two reward actions of one user with
  stored balance 3, both reading before either commits and both drawing a trick of
  magnitude 6, each clamp to \<open>- 3\<close>; the first transaction commits 0, the second reads 0
  and commits \<open>- 3\<close>.
\<close>

theorem race_commits_negative_balance:
  "map_option candy (docs exampleWorld ''u1'') = Some 3
   \<and> (\<exists>out. prepare exampleWorld exampleUser 9000000 draw_0_05 draw_0_9 draw_0 = Ready out
          \<and> candyChange out = - 3
          \<and> map_option candy (docs (fst (finish exampleWorld exampleUser 9000000 out)) ''u1'') = Some 0
          \<and> map_option candy
               (docs (fst (finish (fst (finish exampleWorld exampleUser 9000000 out)) exampleUser 9000001 out))
                  ''u1'') = Some (- 3))
   \<and> map_option candy
        (docs (raceTwo exampleWorld exampleUser 9000000 (draw_0_05, draw_0_9, draw_0) 9000001 (draw_0_05, draw_0_9, draw_0))
           ''u1'') = Some (- 3)"
proof -
  have a: "map_option candy (docs exampleWorld ''u1'') = Some 3"
    by (simp add: exampleWorld_def exampleProfile_def)
  have o: "computeOutcome 3 draw_0_05 draw_0_9 draw_0 =
      \<lparr>taken = Trick, candyChange = - 3, out_title = ''A Nasty Trick!'', out_color = ''#b22222'',
       message = Some (tricks (- 3) ! 0)\<rparr>"
    using draws_trick floors_at_draws
    by (simp add: computeOutcome_def Let_def jsIndex_def tricks_length)
  have pA: "prepare exampleWorld exampleUser 9000000 draw_0_05 draw_0_9 draw_0
      = Ready (computeOutcome 3 draw_0_05 draw_0_9 draw_0)"
    by (simp add: prepare_def Let_def exampleWorld_profile exampleProfile_def COOLDOWN_TIME_def)
  have pB: "prepare exampleWorld exampleUser 9000001 draw_0_05 draw_0_9 draw_0
      = Ready (computeOutcome 3 draw_0_05 draw_0_9 draw_0)"
    by (simp add: prepare_def Let_def exampleWorld_profile exampleProfile_def COOLDOWN_TIME_def)
  have f1: "fst (finish exampleWorld exampleUser 9000000 (computeOutcome 3 draw_0_05 draw_0_9 draw_0))
      = \<lparr>docs = Map.empty(''u1'' \<mapsto> exampleProfile\<lparr>candy := 0, lastUsed := 9000000\<rparr>), candy_data = [], available = True\<rparr>"
    unfolding o
    by (simp add: finish_def transaction_def getDoc_def Let_def exampleWorld_def exampleUser_def
        exampleProfile_def rewardEmbed_def setDescription_def)
  have f2: "fst (finish \<lparr>docs = Map.empty(''u1'' \<mapsto> exampleProfile\<lparr>candy := 0, lastUsed := 9000000\<rparr>), candy_data = [], available = True\<rparr>
        exampleUser 9000001 (computeOutcome 3 draw_0_05 draw_0_9 draw_0))
      = \<lparr>docs = Map.empty(''u1'' \<mapsto> exampleProfile\<lparr>candy := - 3, lastUsed := 9000001\<rparr>), candy_data = [], available = True\<rparr>"
    unfolding o
    by (simp add: finish_def transaction_def getDoc_def Let_def exampleUser_def exampleProfile_def
        rewardEmbed_def setDescription_def)
  have c: "candyChange (computeOutcome 3 draw_0_05 draw_0_9 draw_0) = - 3" by (simp add: o)
  have b: "\<exists>out. prepare exampleWorld exampleUser 9000000 draw_0_05 draw_0_9 draw_0 = Ready out
          \<and> candyChange out = - 3
          \<and> map_option candy (docs (fst (finish exampleWorld exampleUser 9000000 out)) ''u1'') = Some 0
          \<and> map_option candy
               (docs (fst (finish (fst (finish exampleWorld exampleUser 9000000 out)) exampleUser 9000001 out))
                  ''u1'') = Some (- 3)"
    using pA c by (simp add: f1 f2)
  have r: "map_option candy
        (docs (raceTwo exampleWorld exampleUser 9000000 (draw_0_05, draw_0_9, draw_0) 9000001 (draw_0_05, draw_0_9, draw_0))
           ''u1'') = Some (- 3)"
    by (simp add: raceTwo_def pA pB f1 f2)
  show ?thesis using a b r by blast
qed


section \<open>The shop\<close>

lemma shopDescription_entries:
  "shopDescription p =
     ''You have **'' @ showInt (candy p) @ '' '' @ candyGlyph @ ''** to spend.'' @ newline @ newline
     @ concat (map (shopEntry p) SHOP_ITEMS)"
  by (simp add: shopDescription_def SHOP_ITEMS_def)

text \<open>
  Claim C6. The catalog is the fixed list of three items \<open>hat\<close>, \<open>mask\<close>, \<open>ghost\<close> in
  that order, each with a positive cost, and every reply of the shop lists exactly these
  entries in that order. For every profile and item the status is OWNED when the id of the
  item is in the inventory, whatever the balance; otherwise BUYABLE when the balance
  reaches the cost, and TOO POOR when it does not. The three status texts differ.
\<close>

theorem shop_catalog:
  "length SHOP_ITEMS = 3
   \<and> map item_id SHOP_ITEMS = [''hat'', ''mask'', ''ghost'']
   \<and> map cost SHOP_ITEMS = [50, 150, 300]
   \<and> (\<forall>item \<in> set SHOP_ITEMS. 0 < cost item)
   \<and> (item_id item \<in> set (inventory p) \<longrightarrow> shopStatus p item = checkMark @ '' OWNED'')
   \<and> (item_id item \<notin> set (inventory p) \<and> cost item \<le> candy p \<longrightarrow>
         shopStatus p item = greenCircle @ '' BUYABLE'')
   \<and> (item_id item \<notin> set (inventory p) \<and> candy p < cost item \<longrightarrow>
         shopStatus p item = redCircle @ '' TOO POOR'')
   \<and> checkMark @ '' OWNED'' \<noteq> greenCircle @ '' BUYABLE''
   \<and> checkMark @ '' OWNED'' \<noteq> redCircle @ '' TOO POOR''
   \<and> greenCircle @ '' BUYABLE'' \<noteq> redCircle @ '' TOO POOR''
   \<and> (\<exists>e. handleShop w u = (w, Inr (Embeds e))
         \<and> embed_description e
             = Some (''You have **'' @ showInt (candy (getUserProfile w (user_id u))) @ '' ''
                 @ candyGlyph @ ''** to spend.'' @ newline @ newline
                 @ concat (map (shopEntry (getUserProfile w (user_id u))) SHOP_ITEMS)))"
proof -
  have a: "length SHOP_ITEMS = 3" by (simp add: SHOP_ITEMS_def)
  have b: "map item_id SHOP_ITEMS = [''hat'', ''mask'', ''ghost'']" by (simp add: SHOP_ITEMS_def)
  have c: "map cost SHOP_ITEMS = [50, 150, 300]" by (simp add: SHOP_ITEMS_def)
  have d: "\<forall>item \<in> set SHOP_ITEMS. 0 < cost item" by (simp add: SHOP_ITEMS_def)
  have s1: "item_id item \<in> set (inventory p) \<longrightarrow> shopStatus p item = checkMark @ '' OWNED''"
    by (simp add: shopStatus_def Let_def)
  have s2: "item_id item \<notin> set (inventory p) \<and> cost item \<le> candy p \<longrightarrow>
         shopStatus p item = greenCircle @ '' BUYABLE''"
    by (simp add: shopStatus_def Let_def)
  have s3: "item_id item \<notin> set (inventory p) \<and> candy p < cost item \<longrightarrow>
         shopStatus p item = redCircle @ '' TOO POOR''"
    by (simp add: shopStatus_def Let_def)
  have n1: "checkMark @ '' OWNED'' \<noteq> greenCircle @ '' BUYABLE''"
    by (simp add: checkMark_def greenCircle_def)
  have n2: "checkMark @ '' OWNED'' \<noteq> redCircle @ '' TOO POOR''"
    by (simp add: checkMark_def redCircle_def)
  have n3: "greenCircle @ '' BUYABLE'' \<noteq> redCircle @ '' TOO POOR''"
    by (simp add: greenCircle_def redCircle_def)
  have h: "\<exists>e. handleShop w u = (w, Inr (Embeds e))
         \<and> embed_description e
             = Some (''You have **'' @ showInt (candy (getUserProfile w (user_id u))) @ '' ''
                 @ candyGlyph @ ''** to spend.'' @ newline @ newline
                 @ concat (map (shopEntry (getUserProfile w (user_id u))) SHOP_ITEMS))"
    by (simp add: handleShop_def Let_def shopDescription_entries)
  show ?thesis using a b c d s1 s2 s3 n1 n2 n3 h by blast
qed

theorem shop_catalog_witness:
  "SHOP_ITEMS ! 0 \<in> set SHOP_ITEMS \<and> 0 < cost (SHOP_ITEMS ! 0)
   \<and> item_id (SHOP_ITEMS ! 0) \<in> set (inventory brokenProfile)
   \<and> shopStatus brokenProfile (SHOP_ITEMS ! 0) = checkMark @ '' OWNED''
   \<and> item_id (SHOP_ITEMS ! 1) \<notin> set (inventory brokenProfile)
   \<and> candy brokenProfile < cost (SHOP_ITEMS ! 1)
   \<and> shopStatus brokenProfile (SHOP_ITEMS ! 1) = redCircle @ '' TOO POOR''
   \<and> item_id (SHOP_ITEMS ! 0) \<notin> set (inventory exampleProfile)
   \<and> cost (SHOP_ITEMS ! 0) \<le> candy (exampleProfile\<lparr>candy := 50\<rparr>)
   \<and> shopStatus (exampleProfile\<lparr>candy := 50\<rparr>) (SHOP_ITEMS ! 0) = greenCircle @ '' BUYABLE''"
proof -
  have m: "SHOP_ITEMS ! 0 \<in> set SHOP_ITEMS" by (simp add: SHOP_ITEMS_def)
  have a: "item_id (SHOP_ITEMS ! 0) \<in> set (inventory brokenProfile)"
    by (simp add: SHOP_ITEMS_def brokenProfile_def)
  have b: "item_id (SHOP_ITEMS ! 1) \<notin> set (inventory brokenProfile)
      \<and> candy brokenProfile < cost (SHOP_ITEMS ! 1)"
    by (simp add: SHOP_ITEMS_def brokenProfile_def)
  have c: "item_id (SHOP_ITEMS ! 0) \<notin> set (inventory (exampleProfile\<lparr>candy := 50\<rparr>))
      \<and> cost (SHOP_ITEMS ! 0) \<le> candy (exampleProfile\<lparr>candy := 50\<rparr>)"
    by (simp add: SHOP_ITEMS_def exampleProfile_def)
  show ?thesis
    using shop_catalog [of "SHOP_ITEMS ! 0" brokenProfile exampleWorld exampleUser]
      shop_catalog [of "SHOP_ITEMS ! 1" brokenProfile exampleWorld exampleUser]
      shop_catalog [of "SHOP_ITEMS ! 0" "exampleProfile\<lparr>candy := 50\<rparr>" exampleWorld exampleUser]
      m a b c
    by simp
qed


section \<open>The leaderboard\<close>

text \<open>
  What the handler does with the answer of the store: the lines follow the order of the
  snapshot and are numbered from 1; the snapshot is sorted by \<^verbatim>\<open>candy\<close> descending and
  holds at most 10 documents of the top-level collection; a populated text differs from
  the empty and the unavailable text. The profile documents play no part in it.
\<close>

lemma leaderboardLines_length: "length (leaderboardLines r ds) = length ds"
  by (induction ds arbitrary: r) simp_all

lemma leaderboardLines_nth:
  "i < length ds \<Longrightarrow> leaderboardLines r ds ! i = leaderboardLine (r + int i) (ds ! i)"
proof (induction ds arbitrary: r i)
  case Nil
  then show ?case by simp
next
  case (Cons d ds)
  show ?case
  proof (cases i)
    case 0
    then show ?thesis by simp
  next
    case (Suc j)
    with Cons.prems have "j < length ds" by simp
    then have "leaderboardLines (r + 1) ds ! j = leaderboardLine (r + 1 + int j) (ds ! j)"
      by (rule Cons.IH)
    with Suc show ?thesis by (simp add: ac_simps)
  qed
qed

lemma getDocs_ordered:
  assumes "getDocs w = Inr ds"
  shows "length ds \<le> 10 \<and> set ds \<subseteq> set (candy_data w)
    \<and> (\<forall>i j. i < j \<and> j < length ds \<longrightarrow> candy (ds ! j) \<le> candy (ds ! i))"
proof -
  from assms have ds: "ds = take 10 (orderByCandyDesc (candy_data w))"
    by (simp add: getDocs_def split: if_splits)
  have s: "sorted (map (\<lambda>d. - candy d) (orderByCandyDesc (candy_data w)))"
    unfolding orderByCandyDesc_def by (rule sorted_sort_key)
  have "sorted (take 10 (map (\<lambda>d. - candy d) (orderByCandyDesc (candy_data w))))"
    using s by (rule sorted_wrt_take)
  then have sd: "sorted (map (\<lambda>d. - candy d) ds)" unfolding ds by (simp add: take_map)
  have ord: "\<forall>i j. i < j \<and> j < length ds \<longrightarrow> candy (ds ! j) \<le> candy (ds ! i)"
  proof (intro allI impI)
    fix i j assume ij: "i < j \<and> j < length ds"
    then have "map (\<lambda>d. - candy d) ds ! i \<le> map (\<lambda>d. - candy d) ds ! j"
      using sd by (simp add: sorted_iff_nth_mono)
    with ij show "candy (ds ! j) \<le> candy (ds ! i)" by simp
  qed
  have sub: "set ds \<subseteq> set (candy_data w)"
  proof -
    have "set ds \<subseteq> set (orderByCandyDesc (candy_data w))" unfolding ds by (rule set_take_subset)
    then show ?thesis unfolding orderByCandyDesc_def by simp
  qed
  have "length ds \<le> 10" unfolding ds by simp
  with sub ord show ?thesis by blast
qed

lemma leaderboard_ignores_profiles:
  "leaderboardText (getDocs (w\<lparr>docs := ps\<rparr>)) = leaderboardText (getDocs w)"
  by (simp add: getDocs_def)

lemma leaderboard_of_empty_collection:
  "candy_data w = [] \<Longrightarrow>
     leaderboardText (getDocs w) = (if available w then emptyText else unavailableText)"
  by (simp add: getDocs_def leaderboardText_def orderByCandyDesc_def)

lemma join_starts: "xs \<noteq> [] \<Longrightarrow> \<exists>rest. join sep xs = hd xs @ rest"
proof (cases xs)
  case Nil
  assume "xs \<noteq> []"
  with Nil show ?thesis by simp
next
  case (Cons x ys)
  then show ?thesis by (cases ys) auto
qed

lemma leaderboardLine_starts:
  "\<exists>rest. leaderboardLine r d = ''**#'' @ showInt r @ ''** '' @ rest"
  by (simp add: leaderboardLine_def)

lemma populated_starts:
  assumes "ds \<noteq> []"
  shows "\<exists>rest. leaderboardText (Inr ds) = ''**#'' @ rest"
proof -
  obtain d ds' where ds: "ds = d # ds'" using assms by (cases ds) auto
  have "leaderboardLines 1 ds \<noteq> []" using ds by simp
  then obtain rest where r: "join newline (leaderboardLines 1 ds) = hd (leaderboardLines 1 ds) @ rest"
    using join_starts by blast
  have "hd (leaderboardLines 1 ds) = leaderboardLine 1 d" using ds by simp
  then obtain rest' where "hd (leaderboardLines 1 ds) = ''**#'' @ showInt 1 @ ''** '' @ rest'"
    using leaderboardLine_starts by metis
  with r have "join newline (leaderboardLines 1 ds) = ''**#'' @ (showInt 1 @ ''** '' @ rest' @ rest)"
    by simp
  then show ?thesis using assms by (auto simp add: leaderboardText_def)
qed

lemma populated_differs:
  "ds \<noteq> [] \<Longrightarrow>
     leaderboardText (Inr ds) \<noteq> emptyText \<and> leaderboardText (Inr ds) \<noteq> unavailableText"
proof -
  assume "ds \<noteq> []"
  then obtain rest where r: "leaderboardText (Inr ds) = ''**#'' @ rest"
    using populated_starts by blast
  show ?thesis unfolding r by (simp add: emptyText_def unavailableText_def)
qed

text \<open>
  Claim C7. The claim is that the leaderboard ranks the profiles, 1..n in
  candy-descending order, and shows the empty result for an empty profile population. The
  code ranks the documents of the top-level collection \<^verbatim>\<open>candy_data\<close>, where no profile
  is ever written: the comments of lines 335 to 379 intend a collection group query over
  the profile documents of all users, and line 379 calls \<^verbatim>\<open>collection\<close>. Starting from
  an empty store, after user \<open>u1\<close> has collected 3 candy the profile population holds
  one profile, and \<^verbatim>\<open>/topspook\<close> shows the empty text instead of rank 1 for that profile;
  with the store unreachable it shows the unavailable text.
\<close>

theorem leaderboard_misses_profiles:
  "docs freshWorld ''u1'' = None
   \<and> docs (fst (handleTrickOrTreat freshWorld exampleUser 9000000 draw_0_5 draw_0_5 draw_0_5)) ''u1''
       = Some \<lparr>candy = 3, title = ''New Trick-or-Treater'', inventory = [], lastUsed = 9000000,
               username = Some ''kat''\<rparr>
   \<and> getDocs (fst (handleTrickOrTreat freshWorld exampleUser 9000000 draw_0_5 draw_0_5 draw_0_5))
       = Inr []
   \<and> leaderboardText
        (getDocs (fst (handleTrickOrTreat freshWorld exampleUser 9000000 draw_0_5 draw_0_5 draw_0_5)))
       = emptyText
   \<and> snd (interactionCreate
             (fst (handleTrickOrTreat freshWorld exampleUser 9000000 draw_0_5 draw_0_5 draw_0_5))
             ''topspook'' exampleUser 9000001 draw_0_5 draw_0_5 draw_0_5)
       = Some (Embeds
           \<lparr>embed_color = ''#000000'',
            embed_title = crown @ '' Global Spooky Leaderboard '' @ crown,
            embed_description = Some emptyText,
            embed_thumbnail = None,
            embed_fields = [],
            embed_footer = ''The top 10 richest trick-or-treaters across all servers.''\<rparr>)
   \<and> docs exampleWorld ''u1'' = Some exampleProfile
   \<and> candy exampleProfile = 3
   \<and> leaderboardText (getDocs exampleWorld) = emptyText
   \<and> leaderboardText (getDocs downWorld) = unavailableText"
proof -
  define w1 where "w1 = fst (handleTrickOrTreat freshWorld exampleUser 9000000 draw_0_5 draw_0_5 draw_0_5)"
  have p: "prepare freshWorld exampleUser 9000000 draw_0_5 draw_0_5 draw_0_5
      = Ready (computeOutcome 0 draw_0_5 draw_0_5 draw_0_5)"
    by (simp add: prepare_def Let_def getUserProfile_def getDoc_def freshWorld_def
        defaultProfile_def COOLDOWN_TIME_def)
  have w1: "w1 = \<lparr>docs = Map.empty(''u1'' \<mapsto>
        \<lparr>candy = 3, title = ''New Trick-or-Treater'', inventory = [], lastUsed = 9000000,
         username = Some ''kat''\<rparr>), candy_data = [], available = True\<rparr>"
    unfolding w1_def handleTrickOrTreat_def p
    by (simp add: treat_at_halves finish_def transaction_def getDoc_def Let_def rewardEmbed_throws
        freshWorld_def exampleUser_def defaultProfile_def)
  have a: "docs freshWorld ''u1'' = None" by (simp add: freshWorld_def)
  have b: "docs w1 ''u1''
       = Some \<lparr>candy = 3, title = ''New Trick-or-Treater'', inventory = [], lastUsed = 9000000,
               username = Some ''kat''\<rparr>" unfolding w1 by simp
  have c: "getDocs w1 = Inr []" unfolding w1 by (simp add: getDocs_def orderByCandyDesc_def)
  have d: "leaderboardText (getDocs w1) = emptyText" unfolding c by (simp add: leaderboardText_def)
  have e: "snd (interactionCreate w1 ''topspook'' exampleUser 9000001 draw_0_5 draw_0_5 draw_0_5)
       = Some (Embeds
           \<lparr>embed_color = ''#000000'',
            embed_title = crown @ '' Global Spooky Leaderboard '' @ crown,
            embed_description = Some emptyText,
            embed_thumbnail = None,
            embed_fields = [],
            embed_footer = ''The top 10 richest trick-or-treaters across all servers.''\<rparr>)"
    by (simp add: interactionCreate_def Let_def handleTopSpook_def d)
  have f: "docs exampleWorld ''u1'' = Some exampleProfile" by (simp add: exampleWorld_def)
  have g: "candy exampleProfile = 3" by (simp add: exampleProfile_def)
  have h: "leaderboardText (getDocs exampleWorld) = emptyText"
    by (simp add: leaderboard_of_empty_collection exampleWorld_def)
  have i: "leaderboardText (getDocs downWorld) = unavailableText"
    by (simp add: leaderboard_of_empty_collection downWorld_def exampleWorld_def)
  show ?thesis using a b c d e f g h i unfolding w1_def by blast
qed


section \<open>A failed read of the profile\<close>

lemma finish_unavailable: "\<not> available w \<Longrightarrow> finish w u now out = (w, Inl StoreError)"
  by (simp add: finish_def transaction_def getDoc_def)

lemma getUserProfile_unavailable: "\<not> available w \<Longrightarrow> getUserProfile w v = errorProfile"
  by (simp add: getUserProfile_def getDoc_def)

lemma getUserProfile_absent:
  "available w \<Longrightarrow> docs w v = None \<Longrightarrow> getUserProfile w v = defaultProfile"
  by (simp add: getUserProfile_def getDoc_def)

lemma shopStatus_fallback: "shopStatus errorProfile item = shopStatus defaultProfile item"
  by (simp add: shopStatus_def errorProfile_def defaultProfile_def)

lemma shopDescription_fallback: "shopDescription errorProfile = shopDescription defaultProfile"
  by (simp add: shopDescription_def shopEntry_def shopStatus_fallback)
    (simp add: errorProfile_def defaultProfile_def)

text \<open>
  Claim C8, as stated: after a failed read every dependent command reports the failure
  instead of going on with a default profile. It fails for \<^verbatim>\<open>/shop\<close>: with the store
  unreachable the reply is the one a user with no stored record gets from a working store,
  and it is not the error notice.
\<close>

theorem shop_hides_read_failure:
  "getDoc downWorld (user_id exampleUser) = Inl StoreError
   \<and> getDoc freshWorld (user_id exampleUser) = Inr None
   \<and> snd (handleShop downWorld exampleUser) = snd (handleShop freshWorld exampleUser)
   \<and> snd (interactionCreate downWorld ''shop'' exampleUser 9000000 draw_0 draw_0 draw_0)
       = snd (interactionCreate freshWorld ''shop'' exampleUser 9000000 draw_0 draw_0 draw_0)
   \<and> snd (interactionCreate downWorld ''shop'' exampleUser 9000000 draw_0 draw_0 draw_0)
       \<noteq> Some errorReply"
proof -
  have a: "getDoc downWorld (user_id exampleUser) = Inl StoreError"
    by (simp add: getDoc_def downWorld_def)
  have b: "getDoc freshWorld (user_id exampleUser) = Inr None"
    by (simp add: getDoc_def freshWorld_def)
  have pa: "getUserProfile downWorld (user_id exampleUser) = errorProfile"
    by (simp add: getUserProfile_def a)
  have pb: "getUserProfile freshWorld (user_id exampleUser) = defaultProfile"
    by (simp add: getUserProfile_def b)
  have c: "snd (handleShop downWorld exampleUser) = snd (handleShop freshWorld exampleUser)"
    by (simp add: handleShop_def Let_def pa pb shopDescription_fallback)
  have d: "snd (interactionCreate downWorld ''shop'' exampleUser 9000000 draw_0 draw_0 draw_0)
       = snd (interactionCreate freshWorld ''shop'' exampleUser 9000000 draw_0 draw_0 draw_0)"
    using c by (simp add: interactionCreate_def Let_def split_beta)
  have e: "snd (interactionCreate downWorld ''shop'' exampleUser 9000000 draw_0 draw_0 draw_0)
       \<noteq> Some errorReply"
    by (simp add: interactionCreate_def Let_def handleShop_def errorReply_def)
  show ?thesis using a b c d e by blast
qed

text \<open>
  Claim C8, amended. A failed read is recovered with the fallback profile (candy 0, title
  \<open>Error Status\<close>, empty inventory, lastUsed 0) and the command goes on with it: the
  inventory shows the fallback under the title \<open>Error Status\<close>; the shop shows the reply
  of a user with no stored record; the reward action passes the gate as never used, and
  reports the error notice when its transaction fails as well.
\<close>

theorem read_failure_fallback:
  assumes "\<not> available w"
  shows
  "getUserProfile w v = errorProfile
   \<and> errorProfile = \<lparr>candy = 0, title = ''Error Status'', inventory = [], lastUsed = 0,
        username = None\<rparr>
   \<and> handleInventory w u = (w, Inr (Embeds (inventoryEmbed u errorProfile ''None'')))
   \<and> embed_description (inventoryEmbed u errorProfile ''None'')
       = Some ''**Current Title:** `Error Status`''
   \<and> (\<forall>w'. available w' \<and> docs w' (user_id u) = None \<longrightarrow>
         snd (handleShop w u) = snd (handleShop w' u))
   \<and> prepare w u now d1 d2 d3
       = (if now < COOLDOWN_TIME then Blocked (cooldownReply (COOLDOWN_TIME - now))
          else Ready (computeOutcome 0 d1 d2 d3))
   \<and> (COOLDOWN_TIME \<le> now \<longrightarrow>
         interactionCreate w ''trickortreat'' u now d1 d2 d3 = (w, Some errorReply))"
proof -
  have p: "\<And>x. getUserProfile w x = errorProfile"
    using assms by (rule getUserProfile_unavailable)
  have b: "errorProfile = \<lparr>candy = 0, title = ''Error Status'', inventory = [], lastUsed = 0,
        username = None\<rparr>" by (simp add: errorProfile_def)
  have c: "handleInventory w u = (w, Inr (Embeds (inventoryEmbed u errorProfile ''None'')))"
    by (simp add: handleInventory_def Let_def p itemsOwned_def) (simp add: errorProfile_def)
  have d: "embed_description (inventoryEmbed u errorProfile ''None'')
       = Some ''**Current Title:** `Error Status`''"
    by (simp add: inventoryEmbed_def Let_def errorProfile_def orElse_def)
  have e: "\<forall>w'. available w' \<and> docs w' (user_id u) = None \<longrightarrow>
         snd (handleShop w u) = snd (handleShop w' u)"
    by (simp add: handleShop_def Let_def p getUserProfile_absent shopDescription_fallback)
  have f: "prepare w u now d1 d2 d3
       = (if now < COOLDOWN_TIME then Blocked (cooldownReply (COOLDOWN_TIME - now))
          else Ready (computeOutcome 0 d1 d2 d3))"
    by (simp add: prepare_def Let_def p) (simp add: errorProfile_def)
  have g: "COOLDOWN_TIME \<le> now \<longrightarrow>
         interactionCreate w ''trickortreat'' u now d1 d2 d3 = (w, Some errorReply)"
    using assms
    by (simp add: interactionCreate_def Let_def handleTrickOrTreat_def f finish_unavailable)
  show ?thesis using p b c d e f g by blast
qed

theorem read_failure_fallback_witness:
  "\<not> available downWorld
   \<and> getUserProfile downWorld (user_id exampleUser) = errorProfile
   \<and> available freshWorld \<and> docs freshWorld (user_id exampleUser) = None
   \<and> snd (handleShop downWorld exampleUser) = snd (handleShop freshWorld exampleUser)
   \<and> COOLDOWN_TIME \<le> 9000000
   \<and> interactionCreate downWorld ''trickortreat'' exampleUser 9000000 draw_0_5 draw_0_5 draw_0_5
       = (downWorld, Some errorReply)"
proof -
  have h: "\<not> available downWorld" by (simp add: downWorld_def)
  have f: "available freshWorld \<and> docs freshWorld (user_id exampleUser) = None"
    by (simp add: freshWorld_def)
  have t: "COOLDOWN_TIME \<le> 9000000" by (simp add: COOLDOWN_TIME_def)
  note r = read_failure_fallback [OF h, of "user_id exampleUser" exampleUser 9000000
      draw_0_5 draw_0_5 draw_0_5]
  from r have "\<forall>w'. available w' \<and> docs w' (user_id exampleUser) = None \<longrightarrow>
         snd (handleShop downWorld exampleUser) = snd (handleShop w' exampleUser)" by blast
  with f have s: "snd (handleShop downWorld exampleUser) = snd (handleShop freshWorld exampleUser)"
    by blast
  from r t have i: "interactionCreate downWorld ''trickortreat'' exampleUser 9000000 draw_0_5 draw_0_5 draw_0_5
       = (downWorld, Some errorReply)" by blast
  from r have g: "getUserProfile downWorld (user_id exampleUser) = errorProfile" by blast
  show ?thesis using h f t s i g by blast
qed


section \<open>What the commands write\<close>

lemma transaction_frame:
  "transaction w u now change = Inr (w', written) \<Longrightarrow>
     available w' = available w \<and> candy_data w' = candy_data w
     \<and> (\<forall>v. v \<noteq> user_id u \<longrightarrow> docs w' v = docs w v)"
  by (auto simp add: transaction_def getDoc_def Let_def split: if_splits)

lemma finish_frame:
  "available (fst (finish w u now out)) = available w
   \<and> candy_data (fst (finish w u now out)) = candy_data w
   \<and> (\<forall>v. v \<noteq> user_id u \<longrightarrow> docs (fst (finish w u now out)) v = docs w v)"
proof (cases "transaction w u now (candyChange out)")
  case (Inl e)
  then show ?thesis by (simp add: finish_def)
next
  case (Inr r)
  obtain w' written where r: "r = (w', written)" by (cases r)
  with Inr transaction_frame[of w u now "candyChange out" w' written]
  show ?thesis by (simp add: finish_def rewardEmbed_throws)
qed

lemma handleTrickOrTreat_blocked:
  "now < lastUsed (getUserProfile w (user_id u)) + COOLDOWN_TIME \<Longrightarrow>
     fst (handleTrickOrTreat w u now d1 d2 d3) = w"
  by (simp add: handleTrickOrTreat_def prepare_def Let_def)

lemma handleTrickOrTreat_frame:
  "available (fst (handleTrickOrTreat w u now d1 d2 d3)) = available w
   \<and> candy_data (fst (handleTrickOrTreat w u now d1 d2 d3)) = candy_data w
   \<and> (\<forall>v. v \<noteq> user_id u \<longrightarrow> docs (fst (handleTrickOrTreat w u now d1 d2 d3)) v = docs w v)"
  using finish_frame[of w u now]
  by (cases "prepare w u now d1 d2 d3") (simp_all add: handleTrickOrTreat_def)

lemma handleTrickOrTreat_changed:
  assumes "fst (handleTrickOrTreat w u now d1 d2 d3) \<noteq> w"
  shows "lastUsed (getUserProfile w (user_id u)) + COOLDOWN_TIME \<le> now \<and> available w"
proof -
  have "\<not> now < lastUsed (getUserProfile w (user_id u)) + COOLDOWN_TIME"
    using assms handleTrickOrTreat_blocked by blast
  moreover have "available w"
  proof (rule ccontr)
    assume "\<not> available w"
    then have "\<And>out. finish w u now out = (w, Inl StoreError)" by (rule finish_unavailable)
    then have "fst (handleTrickOrTreat w u now d1 d2 d3) = w"
      by (cases "prepare w u now d1 d2 d3") (simp_all add: handleTrickOrTreat_def)
    with assms show False by simp
  qed
  ultimately show ?thesis by simp
qed

lemma readonly_frame:
  "fst (handleInventory w u) = w \<and> fst (handleShop w u) = w \<and> fst (handleTopSpook w) = w"
  by (simp add: handleInventory_def handleShop_def handleTopSpook_def Let_def split: sum.splits)

lemma dispatch_fst:
  "fst (interactionCreate w commandName u now d1 d2 d3) =
     (if commandName = ''trickortreat'' then fst (handleTrickOrTreat w u now d1 d2 d3) else w)"
  using readonly_frame[of w u]
  by (simp add: interactionCreate_def Let_def split_beta)

text \<open>
  Claim C9. Reading the profile of a user with no stored record gives the default profile
  (candy 0, title \<open>New Trick-or-Treater\<close>, empty inventory, lastUsed 0), and a read
  returns no store. The inventory, shop and leaderboard commands and a blocked reward
  action leave the store as it was; the store changes only through a reward action that is
  past its cooldown with the store reachable, and then only the document of the invoking
  user changes: the documents of the other users and the top-level collection stay as
  they were.
\<close>

theorem store_frame:
  "(available w \<and> docs w v = None \<longrightarrow> getUserProfile w v = defaultProfile)
   \<and> defaultProfile = \<lparr>candy = 0, title = ''New Trick-or-Treater'', inventory = [], lastUsed = 0,
        username = None\<rparr>
   \<and> fst (handleInventory w u) = w
   \<and> fst (handleShop w u) = w
   \<and> fst (handleTopSpook w) = w
   \<and> (now < lastUsed (getUserProfile w (user_id u)) + COOLDOWN_TIME \<longrightarrow>
         fst (handleTrickOrTreat w u now d1 d2 d3) = w)
   \<and> (commandName \<noteq> ''trickortreat'' \<longrightarrow>
         fst (interactionCreate w commandName u now d1 d2 d3) = w)
   \<and> (fst (interactionCreate w commandName u now d1 d2 d3) \<noteq> w \<longrightarrow>
         commandName = ''trickortreat''
         \<and> lastUsed (getUserProfile w (user_id u)) + COOLDOWN_TIME \<le> now \<and> available w)
   \<and> (v \<noteq> user_id u \<longrightarrow>
         docs (fst (interactionCreate w commandName u now d1 d2 d3)) v = docs w v)
   \<and> candy_data (fst (interactionCreate w commandName u now d1 d2 d3)) = candy_data w"
proof -
  have a: "available w \<and> docs w v = None \<longrightarrow> getUserProfile w v = defaultProfile"
    by (simp add: getUserProfile_def getDoc_def)
  have b: "defaultProfile = \<lparr>candy = 0, title = ''New Trick-or-Treater'', inventory = [], lastUsed = 0,
        username = None\<rparr>" by (simp add: defaultProfile_def)
  note r = readonly_frame[of w u]
  have c: "now < lastUsed (getUserProfile w (user_id u)) + COOLDOWN_TIME \<longrightarrow>
         fst (handleTrickOrTreat w u now d1 d2 d3) = w"
    using handleTrickOrTreat_blocked by blast
  have d: "commandName \<noteq> ''trickortreat'' \<longrightarrow>
         fst (interactionCreate w commandName u now d1 d2 d3) = w"
    by (simp add: dispatch_fst)
  have e: "fst (interactionCreate w commandName u now d1 d2 d3) \<noteq> w \<longrightarrow>
         commandName = ''trickortreat''
         \<and> lastUsed (getUserProfile w (user_id u)) + COOLDOWN_TIME \<le> now \<and> available w"
    using handleTrickOrTreat_changed[of w u now d1 d2 d3]
    by (simp add: dispatch_fst split: if_splits)
  have f: "v \<noteq> user_id u \<longrightarrow>
         docs (fst (interactionCreate w commandName u now d1 d2 d3)) v = docs w v"
    using handleTrickOrTreat_frame[of w u now d1 d2 d3]
    by (simp add: dispatch_fst)
  have g: "candy_data (fst (interactionCreate w commandName u now d1 d2 d3)) = candy_data w"
    using handleTrickOrTreat_frame[of w u now d1 d2 d3]
    by (simp add: dispatch_fst)
  show ?thesis using a b r c d e f g by blast
qed

theorem store_frame_witness:
  "available exampleWorld \<and> docs exampleWorld ''u2'' = None
   \<and> getUserProfile exampleWorld ''u2'' = defaultProfile
   \<and> 8199000 < lastUsed (getUserProfile exampleWorld (user_id exampleUser)) + COOLDOWN_TIME
   \<and> fst (handleTrickOrTreat exampleWorld exampleUser 8199000 draw_0_5 draw_0_5 draw_0_5) = exampleWorld
   \<and> ''shop'' \<noteq> ''trickortreat''
   \<and> fst (interactionCreate exampleWorld ''shop'' exampleUser 8199000 draw_0_5 draw_0_5 draw_0_5)
       = exampleWorld
   \<and> fst (interactionCreate exampleWorld ''trickortreat'' exampleUser 9000000 draw_0_5 draw_0_5 draw_0_5)
       \<noteq> exampleWorld
   \<and> ''u2'' \<noteq> user_id exampleUser
   \<and> docs (fst (interactionCreate exampleWorld ''trickortreat'' exampleUser 9000000 draw_0_5 draw_0_5 draw_0_5))
        ''u2'' = docs exampleWorld ''u2''"
proof -
  have a: "available exampleWorld \<and> docs exampleWorld ''u2'' = None"
    by (simp add: exampleWorld_def)
  have b: "8199000 < lastUsed (getUserProfile exampleWorld (user_id exampleUser)) + COOLDOWN_TIME"
    by (simp add: exampleWorld_profile exampleProfile_def COOLDOWN_TIME_def)
  have c: "''shop'' \<noteq> ''trickortreat''" by simp
  have d: "''u2'' \<noteq> user_id exampleUser" by (simp add: exampleUser_def)
  have p: "prepare exampleWorld exampleUser 9000000 draw_0_5 draw_0_5 draw_0_5
      = Ready (computeOutcome 3 draw_0_5 draw_0_5 draw_0_5)"
    by (simp add: prepare_def Let_def exampleWorld_profile exampleProfile_def COOLDOWN_TIME_def)
  have hp: "handleTrickOrTreat exampleWorld exampleUser 9000000 draw_0_5 draw_0_5 draw_0_5
      = finish exampleWorld exampleUser 9000000 (computeOutcome 3 draw_0_5 draw_0_5 draw_0_5)"
    by (simp add: handleTrickOrTreat_def p)
  have "docs (fst (handleTrickOrTreat exampleWorld exampleUser 9000000 draw_0_5 draw_0_5 draw_0_5)) ''u1''
      \<noteq> docs exampleWorld ''u1''"
    unfolding hp
    by (simp add: finish_def transaction_def getDoc_def Let_def rewardEmbed_throws
        exampleWorld_def exampleUser_def exampleProfile_def treat_at_halves)
  then have "fst (handleTrickOrTreat exampleWorld exampleUser 9000000 draw_0_5 draw_0_5 draw_0_5)
      \<noteq> exampleWorld" by auto
  then have e: "fst (interactionCreate exampleWorld ''trickortreat'' exampleUser 9000000 draw_0_5 draw_0_5 draw_0_5)
       \<noteq> exampleWorld"
    by (simp add: dispatch_fst)
  show ?thesis
    using store_frame [of exampleWorld "''u2''" exampleUser 8199000 draw_0_5 draw_0_5 draw_0_5 "''shop''"]
      store_frame [of exampleWorld "''u2''" exampleUser 9000000 draw_0_5 draw_0_5 draw_0_5 "''trickortreat''"]
      a b c d e
    by blast
qed


section \<open>An inventory with an unknown item\<close>

lemma SHOP_ITEMS_ids: "map item_id SHOP_ITEMS = [''hat'', ''mask'', ''ghost'']"
  by (simp add: SHOP_ITEMS_def)

lemma itemName_unknown: "ident \<notin> set (map item_id SHOP_ITEMS) \<Longrightarrow> itemName ident = Inl TypeError"
  by (auto simp add: itemName_def SHOP_ITEMS_def)

lemma itemName_known: "ident \<in> set (map item_id SHOP_ITEMS) \<Longrightarrow> \<exists>n. itemName ident = Inr n"
  by (auto simp add: itemName_def SHOP_ITEMS_def)

lemma itemName_iff: "(itemName ident = Inl TypeError) = (ident \<notin> set (map item_id SHOP_ITEMS))"
  using itemName_unknown itemName_known by (metis Inl_Inr_False)

lemma itemNames_unknown:
  "\<exists>ident \<in> set idents. ident \<notin> set (map item_id SHOP_ITEMS) \<Longrightarrow> itemNames idents = Inl TypeError"
proof (induction idents)
  case Nil
  then show ?case by simp
next
  case (Cons a rest)
  show ?case
  proof (cases "a \<in> set (map item_id SHOP_ITEMS)")
    case True
    then obtain n where n: "itemName a = Inr n" using itemName_known by blast
    from True Cons.prems have "\<exists>ident \<in> set rest. ident \<notin> set (map item_id SHOP_ITEMS)" by auto
    then have "itemNames rest = Inl TypeError" by (rule Cons.IH)
    with n show ?thesis by simp
  next
    case False
    then have "itemName a = Inl TypeError" by (rule itemName_unknown)
    then show ?thesis by simp
  qed
qed

lemma itemNames_known:
  "\<forall>ident \<in> set idents. ident \<in> set (map item_id SHOP_ITEMS) \<Longrightarrow> \<exists>ns. itemNames idents = Inr ns"
proof (induction idents)
  case Nil
  then show ?case by simp
next
  case (Cons a rest)
  then obtain n where n: "itemName a = Inr n" using itemName_known by (metis list.set_intros(1))
  from Cons obtain ns where "itemNames rest = Inr ns" by auto
  with n show ?case by simp
qed

text \<open>
  Claim C10. When the inventory of the profile holds an id that is not in the catalog, the
  lookup of that id finds nothing, reading the name throws, the handler ends with that
  TypeError and the user gets the error notice instead of the inventory.
\<close>

theorem inventory_unknown_item:
  assumes "ident \<in> set (inventory (getUserProfile w (user_id u)))"
    and "ident \<notin> set (map item_id SHOP_ITEMS)"
  shows "find (\<lambda>i. item_id i = ident) SHOP_ITEMS = None
    \<and> itemName ident = Inl TypeError
    \<and> handleInventory w u = (w, Inl TypeError)
    \<and> interactionCreate w ''inventory'' u now d1 d2 d3 = (w, Some errorReply)"
proof -
  have f: "find (\<lambda>i. item_id i = ident) SHOP_ITEMS = None"
    using assms(2) by (auto simp add: find_None_iff)
  have n: "itemName ident = Inl TypeError" using assms(2) by (rule itemName_unknown)
  have "\<exists>x \<in> set (inventory (getUserProfile w (user_id u))). x \<notin> set (map item_id SHOP_ITEMS)"
    using assms by blast
  then have ns: "itemNames (inventory (getUserProfile w (user_id u))) = Inl TypeError"
    by (rule itemNames_unknown)
  have ne: "inventory (getUserProfile w (user_id u)) \<noteq> []" using assms(1) by auto
  have h: "handleInventory w u = (w, Inl TypeError)"
    using ns ne by (simp add: handleInventory_def itemsOwned_def Let_def)
  have d: "interactionCreate w ''inventory'' u now d1 d2 d3 = (w, Some errorReply)"
    using h by (simp add: interactionCreate_def)
  show ?thesis using f n h d by blast
qed

theorem inventory_unknown_item_witness:
  "''broom'' \<in> set (inventory (getUserProfile brokenWorld (user_id exampleUser)))
   \<and> ''broom'' \<notin> set (map item_id SHOP_ITEMS)
   \<and> handleInventory brokenWorld exampleUser = (brokenWorld, Inl TypeError)"
proof -
  have p: "getUserProfile brokenWorld (user_id exampleUser) = brokenProfile"
    by (simp add: getUserProfile_def getDoc_def brokenWorld_def exampleUser_def)
  have a: "''broom'' \<in> set (inventory (getUserProfile brokenWorld (user_id exampleUser)))"
    by (simp add: p brokenProfile_def)
  have b: "''broom'' \<notin> set (map item_id SHOP_ITEMS)"
    by (simp add: SHOP_ITEMS_def)
  show ?thesis
    using inventory_unknown_item [OF a b] a b by simp
qed

end
